theory Spec2Isabelle
  imports Complex_Main "HOL-Library.List_Lexorder"
begin

section \<open>Python text\<close>

text \<open>
  A Python \<open>str\<close> is a sequence of Unicode code points, and \<open>len\<close> counts code points.
  The model keeps a text as the list of its code points, so that the Cyrillic messages of the
  program are text of the same length as in the source. An ASCII literal is written
  \<open>u ''...''\<close>; other characters are given by their code point.
\<close>

type_synonym ustr = "nat list"

abbreviation u :: "string \<Rightarrow> ustr" where
  "u s \<equiv> map of_char s"

text \<open>\<open>s.startswith(p)\<close>\<close>

definition startswith :: "ustr \<Rightarrow> ustr \<Rightarrow> bool" where
  "startswith s p = (take (length p) s = p)"

text \<open>\<open>sub in s\<close> for two texts: \<open>sub\<close> occurs in \<open>s\<close> at some position.\<close>

fun contains :: "ustr \<Rightarrow> ustr \<Rightarrow> bool" where
  "contains [] sub = (sub = [])"
| "contains (c # cs) sub = (startswith (c # cs) sub \<or> contains cs sub)"

text \<open>
  \<open>s.lower()\<close> and \<open>s.upper()\<close>. Python maps every cased letter of Unicode. The model
  maps the letters whose image contains an ASCII character: the ASCII letters, and the
  code points of the two tables below (U+0130 and the Kelvin sign U+212A for \<open>lower\<close>;
  for \<open>upper\<close> the sharp s, the dotless i, the long s, the ligatures and the letters
  with a combining mark). It leaves every other code point as it is. Every literal
  the program compares a lower-cased or upper-cased text with is ASCII text, so these
  comparisons are those of Python; a text that the program shows, sends or looks up in
  received data differs from Python's where it has other cased letters.
\<close>

definition lower_special :: "(nat \<times> ustr) list" where
  "lower_special =
     [(304, [105, 775]),
      (8490, [107])]"

definition upper_special :: "(nat \<times> ustr) list" where
  "upper_special =
     [(223, [83, 83]),
      (305, [73]),
      (329, [700, 78]),
      (383, [83]),
      (496, [74, 780]),
      (7830, [72, 817]),
      (7831, [84, 776]),
      (7832, [87, 778]),
      (7833, [89, 778]),
      (7834, [65, 702]),
      (64256, [70, 70]),
      (64257, [70, 73]),
      (64258, [70, 76]),
      (64259, [70, 70, 73]),
      (64260, [70, 70, 76]),
      (64261, [83, 84]),
      (64262, [83, 84])]"

definition lower_cp :: "nat \<Rightarrow> ustr" where
  "lower_cp c =
     (if 65 \<le> c \<and> c \<le> 90 then [c + 32]
      else (case map_of lower_special c of Some s \<Rightarrow> s | None \<Rightarrow> [c]))"

definition upper_cp :: "nat \<Rightarrow> ustr" where
  "upper_cp c =
     (if 97 \<le> c \<and> c \<le> 122 then [c - 32]
      else (case map_of upper_special c of Some s \<Rightarrow> s | None \<Rightarrow> [c]))"

definition lower :: "ustr \<Rightarrow> ustr" where
  "lower s = concat (map lower_cp s)"

definition upper :: "ustr \<Rightarrow> ustr" where
  "upper s = concat (map upper_cp s)"

text \<open>
  \<open>s.strip()\<close> without argument removes leading and trailing whitespace, which for a
  Python \<open>str\<close> is the set of code points below.
\<close>

definition is_space :: "nat \<Rightarrow> bool" where
  "is_space c = (c \<in> set [9, 10, 11, 12, 13, 28, 29, 30, 31, 32, 133, 160, 5760,
     8192, 8193, 8194, 8195, 8196, 8197, 8198, 8199, 8200, 8201, 8202,
     8232, 8233, 8239, 8287, 12288])"

definition lstrip :: "ustr \<Rightarrow> ustr" where
  "lstrip s = dropWhile is_space s"

definition rstrip :: "ustr \<Rightarrow> ustr" where
  "rstrip s = rev (dropWhile is_space (rev s))"

definition strip :: "ustr \<Rightarrow> ustr" where
  "strip s = rstrip (lstrip s)"

text \<open>\<open>sep.join(parts)\<close>\<close>

fun join :: "ustr \<Rightarrow> ustr list \<Rightarrow> ustr" where
  "join sep [] = []"
| "join sep [p] = p"
| "join sep (p # q # ps) = p @ sep @ join sep (q # ps)"

text \<open>
  \<open>s.split(c)\<close> for a separator of one character, as in every call of the program
  (\<open>'|'\<close>, \<open>','\<close>, \<open>'/'\<close>): the result always has at least one part.
\<close>

fun split_on :: "nat \<Rightarrow> ustr \<Rightarrow> ustr list" where
  "split_on c [] = [[]]"
| "split_on c (x # xs) =
     (if x = c then [] # split_on c xs
      else (case split_on c xs of [] \<Rightarrow> [[x]] | p # ps \<Rightarrow> (x # p) # ps))"

text \<open>\<open>s.split(c, 1)\<close>: at most one split, at the first separator.\<close>

definition split_once :: "nat \<Rightarrow> ustr \<Rightarrow> ustr list" where
  "split_once c s =
     (if c \<in> set s then [takeWhile (\<lambda>x. x \<noteq> c) s, tl (dropWhile (\<lambda>x. x \<noteq> c) s)]
      else [s])"

text \<open>
  \<open>s.replace(old, new)\<close>: the occurrences of \<open>old\<close> are replaced from left to right,
  without overlap. The program only replaces the non-empty literals \<open>'to'\<close>, \<open>'TO'\<close> and
  \<open>' '\<close>; for an empty \<open>old\<close> the model returns the text unchanged.
\<close>

function replace :: "ustr \<Rightarrow> ustr \<Rightarrow> ustr \<Rightarrow> ustr" where
  "replace old new [] = []"
| "replace old new (c # cs) =
     (if old \<noteq> [] \<and> startswith (c # cs) old
      then new @ replace old new (drop (length old) (c # cs))
      else c # replace old new cs)"
  by pat_completeness auto
termination
  by (relation "measure (\<lambda>(old, new, s). length s)") (auto simp: Suc_le_eq)

text \<open>\<open>str(n)\<close> for a natural number: its decimal digits.\<close>

function str_of_nat :: "nat \<Rightarrow> ustr" where
  "str_of_nat n = (if n < 10 then [48 + n] else str_of_nat (n div 10) @ [48 + n mod 10])"
  by pat_completeness auto
termination
  by (relation "measure id") auto

section \<open>Python values and exceptions\<close>

text \<open>
  The values a tool can receive from the orchestration layer and the values a JSON document
  decodes to. A dictionary keeps its items in order; its keys are texts, as in JSON and in
  the metadata dictionaries of the orchestration layer.
\<close>

datatype pyval =
    Str ustr
  | IntV int
  | FloatV rat
  | BoolV bool
  | NoneV
  | List "pyval list"
  | Dict "(ustr \<times> pyval) list"

datatype exn_class =
    IndexError | KeyError | TypeError | AttributeError | ValueError | UnboundLocalError
  | FileExistsError | IsADirectoryError | UnicodeEncodeError
  | TimeoutExpired
  | RequestException | HTTPError
  | OtherError

text \<open>
  An exception (a subclass of Python's \<open>Exception\<close>) with its class and the text that
  \<open>str(e)\<close> gives.
\<close>

datatype exn = Exn exn_class ustr

fun exn_text :: "exn \<Rightarrow> ustr" where
  "exn_text (Exn c t) = t"

fun exn_class_of :: "exn \<Rightarrow> exn_class" where
  "exn_class_of (Exn c t) = c"

fun is_dict :: "pyval \<Rightarrow> bool" where
  "is_dict (Dict d) = True"
| "is_dict v = False"

fun is_list :: "pyval \<Rightarrow> bool" where
  "is_list (List xs) = True"
| "is_list v = False"

text \<open>
  \<open>str(v)\<close>: a text is itself; for every other value (a dictionary, a list, a number,
  \<open>None\<close>) \<open>str(v)\<close> is \<open>repr(v)\<close>. Python's \<open>repr\<close> is not part of the
  repository: it is the parameter \<open>R\<close>, and every theorem holds for each \<open>R\<close>.
\<close>

fun py_str :: "(pyval \<Rightarrow> ustr) \<Rightarrow> pyval \<Rightarrow> ustr" where
  "py_str R (Str s) = s"
| "py_str R v = R v"

text \<open>\<open>str(i)\<close> for an integer.\<close>

definition str_of_int :: "int \<Rightarrow> ustr" where
  "str_of_int i = (if i < 0 then [45] @ str_of_nat (nat (- i)) else str_of_nat (nat i))"

text \<open>The name of a value's type, as the interpreter's error texts show it.\<close>

fun type_name :: "pyval \<Rightarrow> ustr" where
  "type_name (Str s) = u ''str''"
| "type_name (IntV i) = u ''int''"
| "type_name (FloatV q) = u ''float''"
| "type_name (BoolV b) = u ''bool''"
| "type_name NoneV = u ''NoneType''"
| "type_name (List xs) = u ''list''"
| "type_name (Dict d) = u ''dict''"

text \<open>\<open>xs[i]\<close> on a list, for an index from 0: IndexError when out of range.\<close>

definition item :: "'a list \<Rightarrow> nat \<Rightarrow> exn + 'a" where
  "item xs i = (if i < length xs then Inr (xs ! i) else Inl (Exn IndexError (u ''list index out of range'')))"

text \<open>Sequencing of operations that can raise: the first exception ends the sequence.\<close>

definition and_then :: "exn + 'a \<Rightarrow> ('a \<Rightarrow> exn + 'b) \<Rightarrow> exn + 'b" where
  "and_then m f = (case m of Inl e \<Rightarrow> Inl e | Inr x \<Rightarrow> f x)"

text \<open>A loop that appends \<open>f x\<close> for each element and stops at the first exception.\<close>

fun map_exn :: "('a \<Rightarrow> exn + 'b) \<Rightarrow> 'a list \<Rightarrow> exn + 'b list" where
  "map_exn f [] = Inr []"
| "map_exn f (x # xs) = and_then (f x) (\<lambda>y. and_then (map_exn f xs) (\<lambda>ys. Inr (y # ys)))"

text \<open>\<open>len(v)\<close>\<close>

fun py_len :: "pyval \<Rightarrow> exn + nat" where
  "py_len (Str s) = Inr (length s)"
| "py_len (List xs) = Inr (length xs)"
| "py_len (Dict d) = Inr (length d)"
| "py_len v = Inl (Exn TypeError (u ''object of type '' @ [39] @ type_name v @ [39] @ u '' has no len()''))"

text \<open>\<open>v.get(key, default)\<close>: only a dictionary has the method.\<close>

fun dict_get :: "pyval \<Rightarrow> ustr \<Rightarrow> pyval \<Rightarrow> exn + pyval" where
  "dict_get (Dict d) k dflt = Inr (case map_of d k of Some x \<Rightarrow> x | None \<Rightarrow> dflt)"
| "dict_get v k dflt =
     Inl (Exn AttributeError ([39] @ type_name v @ [39] @ u '' object has no attribute '' @ [39] @ u ''get'' @ [39]))"

text \<open>
  \<open>key in v\<close> for a text \<open>key\<close>: a key of a dictionary, an element of a list, a part of a
  text; TypeError for a value that is no container.
\<close>

fun py_in :: "ustr \<Rightarrow> pyval \<Rightarrow> exn + bool" where
  "py_in k (Dict d) = Inr (map_of d k \<noteq> None)"
| "py_in k (List xs) = Inr (List.member xs (Str k))"
| "py_in k (Str s) = Inr (contains s k)"
| "py_in k v = Inl (Exn TypeError (u ''argument of type '' @ [39] @ type_name v @ [39] @ u '' is not iterable''))"

text \<open>
  \<open>v[key]\<close> for a text \<open>key\<close>: the value of a dictionary, KeyError (whose text is the
  \<open>repr\<close> of the key) when the key is missing, TypeError for every other value.
\<close>

fun py_getitem :: "(pyval \<Rightarrow> ustr) \<Rightarrow> pyval \<Rightarrow> ustr \<Rightarrow> exn + pyval" where
  "py_getitem R (Dict d) k = (case map_of d k of Some x \<Rightarrow> Inr x | None \<Rightarrow> Inl (Exn KeyError (R (Str k))))"
| "py_getitem R (List xs) k = Inl (Exn TypeError (u ''list indices must be integers or slices, not str''))"
| "py_getitem R (Str s) k = Inl (Exn TypeError (u ''string indices must be integers, not '' @ [39] @ u ''str'' @ [39]))"
| "py_getitem R v k = Inl (Exn TypeError ([39] @ type_name v @ [39] @ u '' object is not subscriptable''))"

text \<open>
  \<open>for x in v\<close>: the elements of a list, the keys of a dictionary, the characters of a
  text; TypeError for every other value.
\<close>

fun py_iter :: "pyval \<Rightarrow> exn + pyval list" where
  "py_iter (List xs) = Inr xs"
| "py_iter (Dict d) = Inr (map (\<lambda>kv. Str (fst kv)) d)"
| "py_iter (Str s) = Inr (map (\<lambda>c. Str [c]) s)"
| "py_iter v = Inl (Exn TypeError ([39] @ type_name v @ [39] @ u '' object is not iterable''))"

text \<open>
  \<open>v[:n]\<close>, evaluated for a log line only: a text and a list can be sliced, the other
  values raise.
\<close>

fun py_slice_ok :: "pyval \<Rightarrow> exn + unit" where
  "py_slice_ok (Str s) = Inr ()"
| "py_slice_ok (List xs) = Inr ()"
| "py_slice_ok (Dict d) = Inl (Exn TypeError (u ''unhashable type: '' @ [39] @ u ''slice'' @ [39]))"
| "py_slice_ok v = Inl (Exn TypeError ([39] @ type_name v @ [39] @ u '' object is not subscriptable''))"

text \<open>
  The integer a value equals as a dictionary key, if any: \<open>True\<close> is the key 1 and the float
  3.0 is the key 3. A list or a dictionary cannot be hashed, and the lookup raises.
\<close>

fun int_key :: "pyval \<Rightarrow> exn + int option" where
  "int_key (IntV i) = Inr (Some i)"
| "int_key (BoolV b) = Inr (Some (if b then 1 else 0))"
| "int_key (FloatV q) = Inr (if of_int \<lfloor>q\<rfloor> = q then Some \<lfloor>q\<rfloor> else None)"
| "int_key (Str s) = Inr None"
| "int_key NoneV = Inr None"
| "int_key v = Inl (Exn TypeError (u ''unhashable type: '' @ [39] @ type_name v @ [39]))"

text \<open>
  Writing a text to a file opened with \<open>encoding='utf-8'\<close> encodes it. Every code point
  has an encoding except the surrogates, U+D800 to U+DFFF, which a Python text can hold
  alone (a lone surrogate): for a text with one of them the write raises
  \<open>UnicodeEncodeError\<close>.
\<close>

definition is_surrogate :: "nat \<Rightarrow> bool" where
  "is_surrogate c = (55296 \<le> c \<and> c \<le> 57343)"

definition utf8_encodable :: "ustr \<Rightarrow> bool" where
  "utf8_encodable t = list_all (\<lambda>c. c < 55296 \<or> 57343 < c) t"

text \<open>
  The exception of the encoder: its text names the first run of surrogates, by the
  character (for a run of one) and the position.
\<close>

definition hex_digit :: "nat \<Rightarrow> nat" where
  "hex_digit d = (if d < 10 then 48 + d else 87 + d)"

definition hex4 :: "nat \<Rightarrow> ustr" where
  "hex4 c = map hex_digit [c div 4096 mod 16, c div 256 mod 16, c div 16 mod 16, c mod 16]"

definition encode_error :: "ustr \<Rightarrow> exn" where
  "encode_error t =
     (let start = length (takeWhile (\<lambda>c. \<not> is_surrogate c) t);
          run = takeWhile is_surrogate (drop start t)
      in Exn UnicodeEncodeError
           ([39] @ u ''utf-8'' @ [39] @ u '' codec can'' @ [39] @ u ''t encode ''
            @ (if length run = 1
               then u ''character '' @ [39, 92, 117] @ hex4 (hd run) @ [39] @ u '' in position ''
                    @ str_of_nat start
               else u ''characters in position '' @ str_of_nat start @ u ''-''
                    @ str_of_nat (start + length run - 1))
            @ u '': surrogates not allowed''))"

text \<open>
  \<open>json.dump(v, f, ensure_ascii=False)\<close> writes every text of \<open>v\<close>, keys and
  values, as it is: the document can be written when each of them can be encoded.
\<close>

fun encodable_value :: "pyval \<Rightarrow> bool" where
  "encodable_value (Str s) = utf8_encodable s"
| "encodable_value (List xs) = list_all encodable_value xs"
| "encodable_value (Dict d) = list_all (\<lambda>kv. utf8_encodable (fst kv) \<and> encodable_value (snd kv)) d"
| "encodable_value v = True"

text \<open>\<open>os.path.dirname(p)\<close> on a POSIX host: the part before the last slash.\<close>

definition dirname :: "ustr \<Rightarrow> ustr" where
  "dirname p =
     (let head = rev (dropWhile (\<lambda>c. c \<noteq> 47) (rev p))
      in if head \<noteq> [] \<and> head \<noteq> replicate (length head) 47
         then rev (dropWhile (\<lambda>c. c = 47) (rev head)) else head)"

section \<open>The world outside the program\<close>

text \<open>
  What a tool does beyond returning a text is a change of the world: files written,
  directories created, requests sent over the network, processes started.
\<close>

text \<open>
  The world keeps the file system as the program addresses it, by the path texts it hands
  to the operating system: \<open>files w p\<close> is the content that the last write under the
  path text \<open>p\<close> left, and \<open>dirs w\<close> holds the paths given to the calls of
  \<open>os.makedirs\<close> that succeeded (each creates the directory with its missing
  ancestors). Which path texts name the same file, which directories exist, and whether
  an operation is refused (a directory in the place of the file, a file in the middle of
  the path, a missing directory, permissions) is decided by the operating system, a
  collaborator of the environment below.
\<close>

text \<open>
  A call of the \<open>requests\<close> library. \<open>hc_headers\<close>, \<open>hc_json\<close> and \<open>hc_timeout\<close> are
  \<open>None\<close> when the call does not pass the keyword; without a timeout the library waits
  without bound.
\<close>

record http_call =
  hc_method :: ustr
  hc_url :: ustr
  hc_headers :: "pyval option"
  hc_json :: "pyval option"
  hc_timeout :: "nat option"

text \<open>
  The response object: its status code and text, what \<open>raise_for_status()\<close> raises (if
  anything) and what \<open>json()\<close> gives.
\<close>

record http_response =
  status_code :: nat
  body_text :: ustr
  raise_for_status :: "exn option"
  body_json :: "exn + pyval"

text \<open>
  Network traffic: a call of \<open>requests\<close>, a geocoding query with its timeout, a web search.
\<close>

datatype net_call = Http http_call | Geocode ustr "nat option" | Search ustr

record location =
  latitude :: pyval
  longitude :: pyval

record completed_process =
  returncode :: int
  stdout :: ustr
  stderr :: ustr

record world =
  files :: "ustr \<rightharpoonup> ustr"
  dirs :: "ustr list"
  net_log :: "net_call list"
  processes :: "ustr list"

text \<open>
  A message of the conversation memory, by its class. \<open>HumanMessage\<close> and \<open>AIMessage\<close>
  are what a dispatch cycle stores; \<open>SystemMessage\<close> stands for the other message classes
  of the orchestration library. The content of a message is a text or, as the library
  allows, a list of texts and dictionaries.
\<close>

datatype role = HumanMessage | AIMessage | SystemMessage

record message =
  msg_class :: role
  content :: pyval

text \<open>
  The persisted memory file \<open>memory.json\<close>: absent, present with a content from which
  \<open>json.load\<close> reads no document (it is not JSON, or it is the beginning of a document
  that a failed write left), or present with the document that \<open>json.load\<close> reads from
  it.
\<close>

datatype memfile = NoFile | Unparseable | Document pyval

record agent_state =
  memory :: "message list"
  memory_file :: memfile

text \<open>
  The collaborators of the program, none of them part of the repository. Every theorem
  below holds for each environment.
  \<^item> \<open>py_repr\<close>: Python's \<open>repr\<close>; \<open>py_format v spec\<close>: \<open>format(v, spec)\<close>, which raises
    for a value the format does not fit;
  \<^item> \<open>json_loads\<close>: the JSON parser;
  \<^item> \<open>requests_send\<close>: the answer of the network to a call of \<open>requests\<close>;
  \<^item> \<open>ddgs_text\<close>: the search provider; \<open>nominatim\<close>: what constructing the geocoder raises,
    if anything; \<open>geocode city attempt\<close>: the answer of the geocoder at each attempt;
  \<^item> \<open>subprocess_run\<close>: the shell, which runs a command and may change the world;
  \<^item> \<open>os_makedirs_error d w\<close>: what the operating system raises when asked for the
    directory \<open>d\<close> in the world \<open>w\<close>, if anything; \<open>os_open_error p w\<close>: what it
    raises when the file \<open>p\<close> is opened for writing, if anything;
  \<^item> \<open>memory_open_error\<close>: what opening the memory file for writing raises, if anything;
  \<^item> \<open>library_content\<close>: what the constructor of a message of the orchestration library
    makes of a content that is neither a text nor a list of texts and dictionaries: the
    content it stores, or the validation error it raises;
  \<^item> \<open>executor_invoke\<close>: the agent executor of the orchestration library (the completion
    capability and the tool calls it asks for), which returns a response or raises, and
    owns the update of the conversation memory;
  \<^item> \<open>summary_llm\<close>: the model that writes the summary, by the content of its answer.
\<close>

record env =
  py_repr :: "pyval \<Rightarrow> ustr"
  py_format :: "pyval \<Rightarrow> ustr \<Rightarrow> exn + ustr"
  json_loads :: "ustr \<Rightarrow> exn + pyval"
  requests_send :: "http_call \<Rightarrow> exn + http_response"
  ddgs_text :: "ustr \<Rightarrow> exn + pyval list"
  nominatim :: "exn option"
  geocode :: "ustr \<Rightarrow> nat \<Rightarrow> exn + location option"
  subprocess_run :: "ustr \<Rightarrow> world \<Rightarrow> (exn + completed_process) \<times> world"
  os_makedirs_error :: "ustr \<Rightarrow> world \<Rightarrow> exn option"
  os_open_error :: "ustr \<Rightarrow> world \<Rightarrow> exn option"
  memory_open_error :: "exn option"
  library_content :: "pyval \<Rightarrow> exn + pyval"
  executor_invoke :: "ustr \<Rightarrow> message list \<Rightarrow> (exn + pyval) \<times> message list"
  summary_llm :: "ustr \<Rightarrow> exn + pyval"

text \<open>
  A computation on a state \<open>'s\<close> that returns a value or raises: the result \<open>Inl e\<close> is the
  exception \<open>e\<close> leaving the function, and the state is the one reached when it was raised.
\<close>

type_synonym ('s, 'a) prog = "'s \<Rightarrow> (exn + 'a) \<times> 's"

definition ret :: "'a \<Rightarrow> ('s, 'a) prog" where
  "ret x = (\<lambda>s. (Inr x, s))"

definition lift :: "exn + 'a \<Rightarrow> ('s, 'a) prog" where
  "lift r = (\<lambda>s. (r, s))"

definition seq :: "('s, 'a) prog \<Rightarrow> ('a \<Rightarrow> ('s, 'b) prog) \<Rightarrow> ('s, 'b) prog" where
  "seq m f = (\<lambda>s. case m s of (Inl e, s') \<Rightarrow> (Inl e, s') | (Inr x, s') \<Rightarrow> f x s')"

text \<open>\<open>try: m  except Exception as e: h e\<close>\<close>

definition try_except :: "('s, 'a) prog \<Rightarrow> (exn \<Rightarrow> ('s, 'a) prog) \<Rightarrow> ('s, 'a) prog" where
  "try_except m h = (\<lambda>s. case m s of (Inl e, s') \<Rightarrow> h e s' | (Inr x, s') \<Rightarrow> (Inr x, s'))"

text \<open>The operations on the world.\<close>

definition send :: "env \<Rightarrow> http_call \<Rightarrow> (world, http_response) prog" where
  "send E call = (\<lambda>w. (requests_send E call, w\<lparr>net_log := net_log w @ [Http call]\<rparr>))"

definition search :: "env \<Rightarrow> ustr \<Rightarrow> (world, pyval list) prog" where
  "search E query = (\<lambda>w. (ddgs_text E query, w\<lparr>net_log := net_log w @ [Search query]\<rparr>))"

definition run_command :: "env \<Rightarrow> ustr \<Rightarrow> (world, completed_process) prog" where
  "run_command E command = (\<lambda>w. subprocess_run E command (w\<lparr>processes := processes w @ [command]\<rparr>))"

text \<open>
  \<open>os.makedirs(d, exist_ok=True)\<close>: the operating system creates the directory and its
  missing ancestors, or raises and the call leaves the function.
\<close>

definition makedirs :: "env \<Rightarrow> ustr \<Rightarrow> (world, unit) prog" where
  "makedirs E d =
     (\<lambda>w. case os_makedirs_error E d w of
             Some e \<Rightarrow> (Inl e, w)
           | None \<Rightarrow> (Inr (), w\<lparr>dirs := List.insert d (dirs w)\<rparr>))"

text \<open>
  \<open>with open(p, 'w', encoding='utf-8') as f: f.write(c)\<close>. When the operating system
  refuses to open the file, nothing is written. Once the file is open it is empty; the
  content is encoded when it is written, and a content that cannot be encoded raises and
  leaves the empty file.
\<close>

definition write_text :: "env \<Rightarrow> ustr \<Rightarrow> ustr \<Rightarrow> (world, unit) prog" where
  "write_text E p c =
     (\<lambda>w. case os_open_error E p w of
             Some e \<Rightarrow> (Inl e, w)
           | None \<Rightarrow>
               if utf8_encodable c then (Inr (), w\<lparr>files := (files w)(p \<mapsto> c)\<rparr>)
               else (Inl (encode_error c), w\<lparr>files := (files w)(p \<mapsto> [])\<rparr>))"

section \<open>Argument normalizer (tools.py, lines 25 to 70)\<close>

text \<open>
  \<open>_normalize_input(value)\<close>, branch by branch. The two subscripts \<open>value[0]\<close> and
  \<open>real_args[0]\<close> are the only operations of the function that can raise.
\<close>

definition normalize_input :: "(pyval \<Rightarrow> ustr) \<Rightarrow> pyval \<Rightarrow> exn + ustr" where
  "normalize_input R v =
     (case v of
        List xs \<Rightarrow>
          (let real_args = filter (\<lambda>x. \<not> is_dict x) xs in
           if real_args = [] then
             (if length xs = 1 then map_sum id (py_str R) (item xs 0)
              else Inr (join (u '' '') (map (py_str R) xs)))
           else if length real_args = 1 then map_sum id (py_str R) (item real_args 0)
           else Inr (join (u '' '') (map (py_str R) real_args)))
      | _ \<Rightarrow> Inr (py_str R v))"

text \<open>
  \<open>_extract_tool_args(*args, **kwargs)\<close>: the positional and the named arguments that are
  not dictionaries.
\<close>

definition extract_tool_args ::
  "pyval list \<Rightarrow> (ustr \<times> pyval) list \<Rightarrow> pyval list \<times> (ustr \<times> pyval) list" where
  "extract_tool_args args kwargs =
     (filter (\<lambda>a. \<not> is_dict a) args, filter (\<lambda>(k, v). \<not> is_dict v) kwargs)"

text \<open>
  The expression every tool starts with,
  \<open>real_args[0] if real_args else kwargs.get(key, args[0] if args else "")\<close>.
\<close>

definition tool_argument :: "ustr \<Rightarrow> pyval list \<Rightarrow> (ustr \<times> pyval) list \<Rightarrow> pyval" where
  "tool_argument key args kwargs =
     (case fst (extract_tool_args args kwargs) of
        r # rs \<Rightarrow> r
      | [] \<Rightarrow>
          (case map_of kwargs key of
             Some v \<Rightarrow> v
           | None \<Rightarrow> (case args of a # as \<Rightarrow> a | [] \<Rightarrow> Str [])))"

section \<open>The texts of the program\<close>

text \<open>
  The messages the program returns, each from its literal in the source; a parameter is a
  value the source formats into the text.
\<close>

text \<open>web_search, line 101: no search results found.\<close>

definition msg_no_results :: "ustr" where
  "msg_no_results =
     [1056, 1077, 1079, 1091, 1083, 1100, 1090, 1072, 1090, 1099, 32, 1087, 1086, 1080, 1089,
     1082, 1072, 32, 1085, 1077, 32, 1085, 1072, 1081, 1076, 1077, 1085, 1099, 46]"

text \<open>web_search, lines 107 to 109: one formatted result (title, URL, description).\<close>

definition msg_search_result :: "ustr \<Rightarrow> ustr \<Rightarrow> ustr \<Rightarrow> ustr" where
  "msg_search_result title href body =
     [1047, 1072, 1075, 1086, 1083, 1086, 1074, 1086, 1082, 58, 32] @ title @ [10] @ u ''URL: ''
     @ href @ [10, 1054, 1087, 1080, 1089, 1072, 1085, 1080, 1077, 58, 32] @ body @ [10]"

text \<open>web_search, line 117: search error, followed by the exception text.\<close>

definition msg_search_error :: "ustr \<Rightarrow> ustr" where
  "msg_search_error e =
     [1054, 1096, 1080, 1073, 1082, 1072, 32, 1087, 1088, 1080, 32, 1087, 1086, 1080, 1089,
     1082, 1077, 58, 32] @ e"

text \<open>http_request, line 155: error, the URL is mandatory, with the input format.\<close>

definition msg_url_required :: "ustr" where
  "msg_url_required =
     [1054, 1096, 1080, 1073, 1082, 1072] @ u '': URL '' @ [1086, 1073, 1103, 1079, 1072, 1090,
     1077, 1083, 1077, 1085, 46, 32, 1060, 1086, 1088, 1084, 1072, 1090, 58, 32, 39] @
     u ''method|url|headers_json|data_json'' @ [39]"

text \<open>http_request, line 166: error, the headers are not valid JSON.\<close>

definition msg_bad_headers :: "ustr \<Rightarrow> ustr" where
  "msg_bad_headers headers_str =
     [1054, 1096, 1080, 1073, 1082, 1072, 58, 32, 1053, 1077, 1074, 1077, 1088, 1085, 1099,
     1081, 32, 1092, 1086, 1088, 1084, 1072, 1090] @ u '' JSON '' @ [1076, 1083, 1103] @
     u '' headers: '' @ headers_str"

text \<open>http_request, line 174: error, the data is not valid JSON.\<close>

definition msg_bad_data :: "ustr \<Rightarrow> ustr" where
  "msg_bad_data data_str =
     [1054, 1096, 1080, 1073, 1082, 1072, 58, 32, 1053, 1077, 1074, 1077, 1088, 1085, 1099,
     1081, 32, 1092, 1086, 1088, 1084, 1072, 1090] @ u '' JSON '' @ [1076, 1083, 1103] @
     u '' data: '' @ data_str"

text \<open>http_request, line 187: unsupported method.\<close>

definition msg_unsupported_method :: "ustr \<Rightarrow> ustr" where
  "msg_unsupported_method method =
     [1053, 1077, 1087, 1086, 1076, 1076, 1077, 1088, 1078, 1080, 1074, 1072, 1077, 1084, 1099,
     1081, 32, 1084, 1077, 1090, 1086, 1076, 58, 32] @ method"

text \<open>http_request, line 191: status and response text.\<close>

definition msg_http_result :: "ustr \<Rightarrow> ustr \<Rightarrow> ustr" where
  "msg_http_result status body =
     u ''Status: '' @ status @ [10] @ u ''Response: '' @ body"

text \<open>http_request, line 196: HTTP request error, followed by the exception text.\<close>

definition msg_http_error :: "ustr \<Rightarrow> ustr" where
  "msg_http_error e =
     [1054, 1096, 1080, 1073, 1082, 1072] @ u '' HTTP '' @ [1079, 1072, 1087, 1088, 1086, 1089,
     1072, 58, 32] @ e"

text \<open>write_file_impl, line 343: error, no file path given.\<close>

definition msg_no_path :: "ustr" where
  "msg_no_path =
     [1054, 1096, 1080, 1073, 1082, 1072, 58, 32, 1053, 1077, 32, 1091, 1082, 1072, 1079, 1072,
     1085, 32, 1087, 1091, 1090, 1100, 32, 1082, 32, 1092, 1072, 1081, 1083, 1091]"

text \<open>write_file_impl, line 359: file written, with its path and the number of characters.\<close>

definition msg_file_written :: "ustr \<Rightarrow> ustr \<Rightarrow> ustr" where
  "msg_file_written file_path n =
     [1060, 1072, 1081, 1083, 32] @ file_path @ [32, 1091, 1089, 1087, 1077, 1096, 1085, 1086,
     32, 1079, 1072, 1087, 1080, 1089, 1072, 1085, 32, 40] @ n @ [32, 1089, 1080, 1084, 1074,
     1086, 1083, 1086, 1074, 41, 46]"

text \<open>write_file_impl, line 362: file write error, followed by the exception text.\<close>

definition msg_write_error :: "ustr \<Rightarrow> ustr" where
  "msg_write_error e =
     [1054, 1096, 1080, 1073, 1082, 1072, 32, 1079, 1072, 1087, 1080, 1089, 1080, 32, 1092,
     1072, 1081, 1083, 1072, 58, 32] @ e"

text \<open>execute_terminal, line 405: error, the command is forbidden for safety reasons.\<close>

definition msg_refusal :: "ustr \<Rightarrow> ustr" where
  "msg_refusal dangerous =
     [1054, 1096, 1080, 1073, 1082, 1072, 58, 32, 1050, 1086, 1084, 1072, 1085, 1076, 1072, 32,
     39] @ dangerous @ [39, 32, 1079, 1072, 1087, 1088, 1077, 1097, 1077, 1085, 1072, 32, 1080,
     1079, 32, 1089, 1086, 1086, 1073, 1088, 1072, 1078, 1077, 1085, 1080, 1081, 32, 1073, 1077,
     1079, 1086, 1087, 1072, 1089, 1085, 1086, 1089, 1090, 1080, 46]"

text \<open>execute_terminal, line 422: exit code and output.\<close>

definition msg_command_result :: "ustr \<Rightarrow> ustr \<Rightarrow> ustr" where
  "msg_command_result code output =
     u ''Exit code: '' @ code @ [10] @ u ''Output:'' @ [10] @ output"

text \<open>execute_terminal, line 425: error, the command exceeded the time limit of 30 seconds.\<close>

definition msg_command_timeout :: "ustr" where
  "msg_command_timeout =
     [1054, 1096, 1080, 1073, 1082, 1072, 58, 32, 1050, 1086, 1084, 1072, 1085, 1076, 1072, 32,
     1087, 1088, 1077, 1074, 1099, 1089, 1080, 1083, 1072, 32, 1083, 1080, 1084, 1080, 1090, 32,
     1074, 1088, 1077, 1084, 1077, 1085, 1080] @ u '' (30 '' @ [1089, 1077, 1082, 1091, 1085,
     1076, 41, 46]"

text \<open>execute_terminal, line 428: command execution error, followed by the exception text.\<close>

definition msg_command_error :: "ustr \<Rightarrow> ustr" where
  "msg_command_error e =
     [1054, 1096, 1080, 1073, 1082, 1072, 32, 1074, 1099, 1087, 1086, 1083, 1085, 1077, 1085,
     1080, 1103, 32, 1082, 1086, 1084, 1072, 1085, 1076, 1099, 58, 32] @ e"

text \<open>get_weather, line 473: city not found.\<close>

definition msg_city_not_found :: "ustr \<Rightarrow> ustr" where
  "msg_city_not_found city =
     [1043, 1086, 1088, 1086, 1076, 32, 39] @ city @ [39, 32, 1085, 1077, 32, 1085, 1072, 1081,
     1076, 1077, 1085, 46]"

text \<open>get_weather, line 480: the forecast request.\<close>

definition weather_url :: "ustr \<Rightarrow> ustr \<Rightarrow> ustr" where
  "weather_url lat lon =
     u ''https://api.open-meteo.com/v1/forecast?latitude='' @ lat @ u ''&longitude='' @ lon @
     u ''&current_weather=true''"

text \<open>get_weather, line 489: no weather data received.\<close>

definition msg_no_weather_data :: "ustr" where
  "msg_no_weather_data =
     [1044, 1072, 1085, 1085, 1099, 1077, 32, 1086, 32, 1087, 1086, 1075, 1086, 1076, 1077, 32,
     1085, 1077, 32, 1087, 1086, 1083, 1091, 1095, 1077, 1085, 1099, 46]"

text \<open>get_weather, line 524: the default condition, the numeric weather code.\<close>

definition msg_weather_code :: "ustr \<Rightarrow> ustr" where
  "msg_weather_code weathercode =
     [1050, 1086, 1076, 58, 32] @ weathercode"

text \<open>get_weather, lines 526 to 531: the weather report.\<close>

definition msg_weather :: "ustr \<Rightarrow> ustr \<Rightarrow> ustr \<Rightarrow> ustr \<Rightarrow> ustr" where
  "msg_weather city temperature windspeed condition =
     [1055, 1086, 1075, 1086, 1076, 1072, 32, 1074, 32] @ city @ [58, 10, 1058, 1077, 1084,
     1087, 1077, 1088, 1072, 1090, 1091, 1088, 1072, 58, 32] @ temperature @ [176, 67, 10, 1042,
     1077, 1090, 1077, 1088, 58, 32] @ windspeed @ [32, 1082, 1084, 47, 1095, 10, 1059, 1089,
     1083, 1086, 1074, 1080, 1103, 58, 32] @ condition"

text \<open>get_weather, lines 540 to 543: error, the geocoding service timed out.\<close>

definition msg_geocoder_timeout :: "ustr" where
  "msg_geocoder_timeout =
     [1054, 1096, 1080, 1073, 1082, 1072, 58, 32, 1057, 1077, 1088, 1074, 1080, 1089, 32, 1075,
     1077, 1086, 1082, 1086, 1076, 1080, 1088, 1086, 1074, 1072, 1085, 1080, 1103, 32, 1085,
     1077, 1076, 1086, 1089, 1090, 1091, 1087, 1077, 1085, 32, 40, 1090, 1072, 1081, 1084, 1072,
     1091, 1090] @ u ''). '' @ [1055, 1086, 1087, 1088, 1086, 1073, 1091, 1081, 1090, 1077, 32,
     1087, 1086, 1079, 1078, 1077, 32, 1080, 1083, 1080, 32, 1091, 1082, 1072, 1078, 1080, 1090,
     1077, 32, 1073, 1086, 1083, 1077, 1077, 32, 1090, 1086, 1095, 1085, 1086, 1077, 32, 1085,
     1072, 1079, 1074, 1072, 1085, 1080, 1077, 32, 1075, 1086, 1088, 1086, 1076, 1072, 46]"

text \<open>get_weather, lines 545 to 548: error, the geocoding service is temporarily unavailable.\<close>

definition msg_geocoder_unavailable :: "ustr" where
  "msg_geocoder_unavailable =
     [1054, 1096, 1080, 1073, 1082, 1072, 58, 32, 1057, 1077, 1088, 1074, 1080, 1089, 32, 1075,
     1077, 1086, 1082, 1086, 1076, 1080, 1088, 1086, 1074, 1072, 1085, 1080, 1103, 32, 1074,
     1088, 1077, 1084, 1077, 1085, 1085, 1086, 32, 1085, 1077, 1076, 1086, 1089, 1090, 1091,
     1087, 1077, 1085, 46, 32, 1055, 1086, 1087, 1088, 1086, 1073, 1091, 1081, 1090, 1077, 32,
     1087, 1086, 1079, 1078, 1077, 46]"

text \<open>get_weather, line 550: city not found, check the spelling.\<close>

definition msg_city_not_found_check :: "ustr \<Rightarrow> ustr" where
  "msg_city_not_found_check city =
     [1043, 1086, 1088, 1086, 1076, 32, 39] @ city @ [39, 32, 1085, 1077, 32, 1085, 1072, 1081,
     1076, 1077, 1085, 46, 32, 1055, 1088, 1086, 1074, 1077, 1088, 1100, 1090, 1077, 32, 1087,
     1088, 1072, 1074, 1080, 1083, 1100, 1085, 1086, 1089, 1090, 1100, 32, 1085, 1072, 1087,
     1080, 1089, 1072, 1085, 1080, 1103, 32, 1085, 1072, 1079, 1074, 1072, 1085, 1080, 1103, 32,
     1075, 1086, 1088, 1086, 1076, 1072, 46]"

text \<open>get_weather, line 552: weather error for the city, followed by the exception text.\<close>

definition msg_weather_error :: "ustr \<Rightarrow> ustr \<Rightarrow> ustr" where
  "msg_weather_error city e =
     [1054, 1096, 1080, 1073, 1082, 1072, 32, 1087, 1086, 1083, 1091, 1095, 1077, 1085, 1080,
     1103, 32, 1087, 1086, 1075, 1086, 1076, 1099, 32, 1076, 1083, 1103, 32] @ city @ [58, 32] @
     e"

text \<open>get_crypto_price, line 590: the price request.\<close>

definition crypto_url :: "ustr \<Rightarrow> ustr \<Rightarrow> ustr" where
  "crypto_url coin currency =
     u ''https://api.coingecko.com/api/v3/simple/price?ids='' @ coin @ u ''&vs_currencies='' @
     currency"

text \<open>get_crypto_price, line 599: cryptocurrency not found.\<close>

definition msg_coin_not_found :: "ustr \<Rightarrow> ustr" where
  "msg_coin_not_found coin =
     [1050, 1088, 1080, 1087, 1090, 1086, 1074, 1072, 1083, 1102, 1090, 1072, 32, 39] @ coin @
     [39, 32, 1085, 1077, 32, 1085, 1072, 1081, 1076, 1077, 1085, 1072, 46, 32, 1055, 1086,
     1087, 1088, 1086, 1073, 1091, 1081, 1090, 1077] @ u '': bitcoin, ethereum, etc.''"

text \<open>get_crypto_price, line 604: currency not supported.\<close>

definition msg_currency_unsupported :: "ustr \<Rightarrow> ustr" where
  "msg_currency_unsupported currency =
     [1042, 1072, 1083, 1102, 1090, 1072, 32, 39] @ currency @ [39, 32, 1085, 1077, 32, 1087,
     1086, 1076, 1076, 1077, 1088, 1078, 1080, 1074, 1072, 1077, 1090, 1089, 1103, 46]"

text \<open>get_crypto_price, line 606: the price line.\<close>

definition msg_price :: "ustr \<Rightarrow> ustr \<Rightarrow> ustr \<Rightarrow> ustr" where
  "msg_price coin price currency =
     [1062, 1077, 1085, 1072, 32] @ coin @ [58, 32] @ price @ [32] @ currency"

text \<open>get_crypto_price, line 611, and get_currency_rate, line 674: error getting the rate.\<close>

definition msg_rate_error :: "ustr \<Rightarrow> ustr" where
  "msg_rate_error e =
     [1054, 1096, 1080, 1073, 1082, 1072, 32, 1087, 1086, 1083, 1091, 1095, 1077, 1085, 1080,
     1103, 32, 1082, 1091, 1088, 1089, 1072, 58, 32] @ e"

text \<open>get_currency_rate, line 646: the rates request.\<close>

definition currency_url :: "ustr \<Rightarrow> ustr" where
  "currency_url base_currency =
     u ''https://api.exchangerate-api.com/v4/latest/'' @ base_currency"

text \<open>get_currency_rate, lines 660 and 661: currency not found, with examples of available ones.\<close>

definition msg_target_not_found :: "ustr \<Rightarrow> ustr \<Rightarrow> ustr" where
  "msg_target_not_found target_currency available_currencies =
     [1042, 1072, 1083, 1102, 1090, 1072, 32, 39] @ target_currency @ [39, 32, 1085, 1077, 32,
     1085, 1072, 1081, 1076, 1077, 1085, 1072, 46, 10, 1044, 1086, 1089, 1090, 1091, 1087, 1085,
     1099, 1077, 32, 1074, 1072, 1083, 1102, 1090, 1099, 32, 40, 1087, 1088, 1080, 1084, 1077,
     1088, 1099] @ u ''): '' @ available_currencies @ u ''...''"

text \<open>get_currency_rate, line 665: the rate line.\<close>

definition msg_rate :: "ustr \<Rightarrow> ustr \<Rightarrow> ustr \<Rightarrow> ustr" where
  "msg_rate base_currency target_currency rate =
     [1050, 1091, 1088, 1089, 32] @ base_currency @ [47] @ target_currency @ [58, 32] @ rate"

text \<open>get_currency_rate, line 671: error getting the currency rate (request failure).\<close>

definition msg_currency_request_error :: "ustr \<Rightarrow> ustr" where
  "msg_currency_request_error e =
     [1054, 1096, 1080, 1073, 1082, 1072, 32, 1087, 1086, 1083, 1091, 1095, 1077, 1085, 1080,
     1103, 32, 1082, 1091, 1088, 1089, 1072, 32, 1074, 1072, 1083, 1102, 1090, 58, 32] @ e"

text \<open>process, line 268: the answer when the response has no output.\<close>

definition msg_default_answer :: "ustr" where
  "msg_default_answer =
     [1048, 1079, 1074, 1080, 1085, 1080, 1090, 1077, 44, 32, 1085, 1077, 32, 1091, 1076, 1072,
     1083, 1086, 1089, 1100, 32, 1086, 1073, 1088, 1072, 1073, 1086, 1090, 1072, 1090, 1100, 32,
     1079, 1072, 1087, 1088, 1086, 1089, 46]"

text \<open>process, lines 285 to 292: the API is not available in the region; use a VPN or a proxy, or set the proxy variables.\<close>

definition msg_region :: "ustr" where
  "msg_region =
     [10060, 32, 1054, 1096, 1080, 1073, 1082, 1072] @ u '': OpenAI API '' @ [1085, 1077, 1076,
     1086, 1089, 1090, 1091, 1087, 1077, 1085, 32, 1074, 32, 1074, 1072, 1096, 1077, 1084, 32,
     1088, 1077, 1075, 1080, 1086, 1085, 1077, 46, 10, 10, 1042, 1086, 1079, 1084, 1086, 1078,
     1085, 1099, 1077, 32, 1088, 1077, 1096, 1077, 1085, 1080, 1103, 58, 10] @ u ''1. '' @
     [1048, 1089, 1087, 1086, 1083, 1100, 1079, 1091, 1081, 1090, 1077] @ u '' VPN '' @ [1080,
     1083, 1080, 32, 1087, 1088, 1086, 1082, 1089, 1080, 32, 1076, 1083, 1103, 32, 1076, 1086,
     1089, 1090, 1091, 1087, 1072, 32, 1082] @ u '' OpenAI API'' @ [10] @ u ''2. '' @ [1048,
     1089, 1087, 1086, 1083, 1100, 1079, 1091, 1081, 1090, 1077, 32, 1072, 1083, 1100, 1090,
     1077, 1088, 1085, 1072, 1090, 1080, 1074, 1085, 1099, 1081] @ u '' API endpoint ('' @
     [1077, 1089, 1083, 1080, 32, 1076, 1086, 1089, 1090, 1091, 1087, 1077, 1085, 41, 10] @
     u ''3. '' @ [1053, 1072, 1089, 1090, 1088, 1086, 1081, 1090, 1077, 32, 1087, 1088, 1086,
     1082, 1089, 1080, 32, 1074, 32, 1087, 1077, 1088, 1077, 1084, 1077, 1085, 1085, 1099, 1093,
     32, 1086, 1082, 1088, 1091, 1078, 1077, 1085, 1080, 1103, 58, 10] @
     u ''   export HTTP_PROXY=http://your-proxy:port'' @ [10] @
     u ''   export HTTPS_PROXY=http://your-proxy:port'' @ [10, 10, 1055, 1086, 1076, 1088, 1086,
     1073, 1085, 1077, 1077, 32, 1089, 1084, 46, 32, 1092, 1072, 1081, 1083] @
     u '' REGION_FIX.md''"

text \<open>process, lines 301 and 302: wrong API key; check OPENAI_API_KEY in the .env file.\<close>

definition msg_auth :: "ustr" where
  "msg_auth =
     [10060, 32, 1054, 1096, 1080, 1073, 1082, 1072, 58, 32, 1053, 1077, 1074, 1077, 1088, 1085,
     1099, 1081] @ u '' API '' @ [1082, 1083, 1102, 1095] @ u '' OpenAI.'' @ [10, 1055, 1088,
     1086, 1074, 1077, 1088, 1100, 1090, 1077, 44, 32, 1095, 1090, 1086, 32, 1074, 32, 1092,
     1072, 1081, 1083, 1077] @ u '' .env '' @ [1091, 1082, 1072, 1079, 1072, 1085, 32, 1087,
     1088, 1072, 1074, 1080, 1083, 1100, 1085, 1099, 1081] @ u '' OPENAI_API_KEY''"

text \<open>process, lines 309 and 310: request limit exceeded; wait some time and try again.\<close>

definition msg_rate_limit :: "ustr" where
  "msg_rate_limit =
     [10060, 32, 1054, 1096, 1080, 1073, 1082, 1072, 58, 32, 1055, 1088, 1077, 1074, 1099, 1096,
     1077, 1085, 32, 1083, 1080, 1084, 1080, 1090, 32, 1079, 1072, 1087, 1088, 1086, 1089, 1086,
     1074, 32, 1082] @ u '' OpenAI API.'' @ [10, 1055, 1086, 1076, 1086, 1078, 1076, 1080, 1090,
     1077, 32, 1085, 1077, 1082, 1086, 1090, 1086, 1088, 1086, 1077, 32, 1074, 1088, 1077, 1084,
     1103, 32, 1080, 32, 1087, 1086, 1087, 1088, 1086, 1073, 1091, 1081, 1090, 1077, 32, 1089,
     1085, 1086, 1074, 1072, 46]"

text \<open>process, line 316: error while handling the request, followed by the exception text.\<close>

definition msg_generic :: "ustr \<Rightarrow> ustr" where
  "msg_generic error_str =
     [10060, 32, 1054, 1096, 1080, 1073, 1082, 1072, 32, 1087, 1088, 1080, 32, 1086, 1073, 1088,
     1072, 1073, 1086, 1090, 1082, 1077, 32, 1079, 1072, 1087, 1088, 1086, 1089, 1072, 58, 32] @
     error_str"

text \<open>_generate_summary, line 229: the dialogue history is empty.\<close>

definition summary_empty :: "ustr" where
  "summary_empty =
     [1048, 1089, 1090, 1086, 1088, 1080, 1103, 32, 1076, 1080, 1072, 1083, 1086, 1075, 1072,
     32, 1087, 1091, 1089, 1090, 1072, 46]"

text \<open>_generate_summary, line 248: the summary could not be generated.\<close>

definition summary_failed :: "ustr" where
  "summary_failed =
     [1053, 1077, 32, 1091, 1076, 1072, 1083, 1086, 1089, 1100, 32, 1089, 1075, 1077, 1085,
     1077, 1088, 1080, 1088, 1086, 1074, 1072, 1090, 1100, 32, 1088, 1077, 1079, 1102, 1084,
     1077, 46]"

text \<open>_generate_summary, line 232: the instruction of the summary prompt.\<close>

definition summary_prompt_head :: "ustr" where
  "summary_prompt_head =
     [1050, 1088, 1072, 1090, 1082, 1086, 32, 1086, 1087, 1080, 1096, 1080, 32, 1087, 1086,
     1089, 1083, 1077, 1076, 1085, 1080, 1077, 32, 1089, 1086, 1086, 1073, 1097, 1077, 1085,
     1080, 1103, 32, 1074, 32, 1076, 1080, 1072, 1083, 1086, 1075, 1077, 32, 40, 1084, 1072,
     1082, 1089, 1080, 1084, 1091, 1084] @ u '' 3 '' @ [1087, 1088, 1077, 1076, 1083, 1086,
     1078, 1077, 1085, 1080, 1103, 41, 58, 10]"

text \<open>_generate_summary, line 234: the role name of a human message.\<close>

definition role_user :: "ustr" where
  "role_user =
     [1055, 1086, 1083, 1100, 1079, 1086, 1074, 1072, 1090, 1077, 1083, 1100]"

text \<open>_generate_summary, line 234: the role name of every other message.\<close>

definition role_agent :: "ustr" where
  "role_agent =
     [1040, 1075, 1077, 1085, 1090]"

text \<open>_generate_summary, line 235: one line of the summary prompt.\<close>

definition summary_line :: "ustr \<Rightarrow> ustr \<Rightarrow> ustr" where
  "summary_line role said =
     role @ [58, 32] @ said @ [10]"

section \<open>The tools (tools.py)\<close>

text \<open>
  Every tool is a function of the positional arguments \<open>args\<close> and the named arguments
  \<open>kwargs\<close>. Calls of the logger are left out, except where a log line evaluates an
  expression that can raise. Seven of the nine registered tools are modelled;
  \<open>read_file\<close> and \<open>generate_qr_code\<close> are not.
\<close>

subsection \<open>web_search (lines 73 to 117)\<close>

definition format_result :: "(pyval \<Rightarrow> ustr) \<Rightarrow> pyval \<Rightarrow> exn + ustr" where
  "format_result R result =
     and_then (dict_get result (u ''title'') (Str (u ''N/A''))) (\<lambda>title.
     and_then (dict_get result (u ''href'') (Str (u ''N/A''))) (\<lambda>href.
     and_then (dict_get result (u ''body'') (Str (u ''N/A''))) (\<lambda>body.
     Inr (msg_search_result (py_str R title) (py_str R href) (py_str R body)))))"

definition web_search :: "env \<Rightarrow> pyval list \<Rightarrow> (ustr \<times> pyval) list \<Rightarrow> (world, ustr) prog" where
  "web_search E args kwargs =
     seq (lift (normalize_input (py_repr E) (tool_argument (u ''query'') args kwargs))) (\<lambda>query.
     try_except
       (seq (search E query) (\<lambda>results.
          if results = [] then ret msg_no_results
          else seq (lift (map_exn (format_result (py_repr E)) results)) (\<lambda>formatted_results.
               ret (join ([10] @ u ''---'' @ [10]) formatted_results))))
       (\<lambda>e. ret (msg_search_error (exn_text e))))"

subsection \<open>http_request (lines 120 to 196)\<close>

text \<open>Lines 137 to 141: a list argument is joined with \<open>|\<close>.\<close>

definition http_argument :: "(pyval \<Rightarrow> ustr) \<Rightarrow> pyval \<Rightarrow> ustr" where
  "http_argument R v =
     (case v of List xs \<Rightarrow> join (u ''|'') (map (py_str R) xs) | _ \<Rightarrow> py_str R v)"

text \<open>
  Lines 160 to 174: a JSON field is parsed, and the log line takes the length of what was
  parsed; both stand in the inner \<open>try\<close>.
\<close>

definition load_json_field :: "env \<Rightarrow> ustr \<Rightarrow> exn + pyval" where
  "load_json_field E s = and_then (json_loads E s) (\<lambda>d. and_then (py_len d) (\<lambda>n. Inr d))"

text \<open>
  Lines 177 to 187: the call of \<open>requests\<close> for each method. No call passes a timeout.
\<close>

definition http_dispatch :: "ustr \<Rightarrow> ustr \<Rightarrow> pyval \<Rightarrow> pyval \<Rightarrow> http_call option" where
  "http_dispatch method url headers_dict data_dict =
     (if method = u ''GET'' then
        Some \<lparr>hc_method = u ''GET'', hc_url = url, hc_headers = Some headers_dict,
              hc_json = None, hc_timeout = None\<rparr>
      else if method = u ''POST'' then
        Some \<lparr>hc_method = u ''POST'', hc_url = url, hc_headers = Some headers_dict,
              hc_json = Some data_dict, hc_timeout = None\<rparr>
      else if method = u ''PUT'' then
        Some \<lparr>hc_method = u ''PUT'', hc_url = url, hc_headers = Some headers_dict,
              hc_json = Some data_dict, hc_timeout = None\<rparr>
      else if method = u ''DELETE'' then
        Some \<lparr>hc_method = u ''DELETE'', hc_url = url, hc_headers = Some headers_dict,
              hc_json = None, hc_timeout = None\<rparr>
      else None)"

definition http_request :: "env \<Rightarrow> pyval list \<Rightarrow> (ustr \<times> pyval) list \<Rightarrow> (world, ustr) prog" where
  "http_request E args kwargs =
     (let request_str = http_argument (py_repr E) (tool_argument (u ''request_str'') args kwargs) in
      try_except
        (let parts = split_on 124 request_str;
             method = (if length parts > 0 then upper (strip (parts ! 0)) else u ''GET'');
             url = (if length parts > 1 then strip (parts ! 1) else []);
             headers_str = (if length parts > 2 then strip (parts ! 2) else []);
             data_str = (if length parts > 3 then strip (parts ! 3) else [])
         in if url = [] then ret msg_url_required
            else
              (case (if headers_str \<noteq> [] then load_json_field E headers_str else Inr (Dict [])) of
                 Inl e \<Rightarrow> ret (msg_bad_headers headers_str)
               | Inr headers_dict \<Rightarrow>
                  (case (if data_str \<noteq> [] then load_json_field E data_str else Inr NoneV) of
                     Inl e \<Rightarrow> ret (msg_bad_data data_str)
                   | Inr data_dict \<Rightarrow>
                      (case http_dispatch method url headers_dict data_dict of
                         None \<Rightarrow> ret (msg_unsupported_method method)
                       | Some call \<Rightarrow>
                          seq (send E call) (\<lambda>response.
                          seq (lift (case raise_for_status response of Some e \<Rightarrow> Inl e | None \<Rightarrow> Inr ())) (\<lambda>ok.
                          ret (msg_http_result (str_of_nat (status_code response))
                                 (take 1000 (body_text response)))))))))
        (\<lambda>e. ret (msg_http_error (exn_text e))))"

subsection \<open>write_file (lines 280 to 375)\<close>

text \<open>Lines 315 to 325 of \<open>write_file_impl\<close>: the argument as one text \<open>path|content\<close>.\<close>

definition write_file_argument :: "(pyval \<Rightarrow> ustr) \<Rightarrow> pyval \<Rightarrow> exn + ustr" where
  "write_file_argument R v =
     (case v of
        List xs \<Rightarrow>
          (let filtered = filter (\<lambda>x. \<not> is_dict x) xs in
           if length filtered \<ge> 2 then
             and_then (item filtered 0) (\<lambda>a. and_then (item filtered 1) (\<lambda>b.
               Inr (py_str R a @ u ''|'' @ py_str R b)))
           else if length filtered = 1 then map_sum id (py_str R) (item filtered 0)
           else (if xs \<noteq> [] then map_sum id (py_str R) (item xs 0) else Inr []))
      | _ \<Rightarrow> Inr (py_str R v))"

text \<open>Lines 331 to 339: path and content, split at the first \<open>|\<close>.\<close>

definition path_and_content :: "ustr \<Rightarrow> ustr \<times> ustr" where
  "path_and_content s =
     (if contains s (u ''|'') then
        (let parts = split_once 124 s
         in (strip (parts ! 0), if length parts > 1 then strip (parts ! 1) else []))
      else (strip s, []))"

definition write_file_impl :: "env \<Rightarrow> pyval \<Rightarrow> (world, ustr) prog" where
  "write_file_impl E file_path_and_content =
     seq (lift (write_file_argument (py_repr E) file_path_and_content)) (\<lambda>arg.
     try_except
       (let file_path = fst (path_and_content arg);
            content = snd (path_and_content arg)
        in if file_path = [] then ret msg_no_path
           else
             (let dir_path = (if dirname file_path \<noteq> [] then dirname file_path else u ''.'') in
              seq (if dir_path \<noteq> u ''.'' then makedirs E dir_path else ret ()) (\<lambda>made.
              seq (write_text E file_path content) (\<lambda>written.
              ret (msg_file_written file_path (str_of_nat (length content)))))))
       (\<lambda>e. ret (msg_write_error (exn_text e))))"

definition write_file_wrapper :: "env \<Rightarrow> pyval list \<Rightarrow> (ustr \<times> pyval) list \<Rightarrow> (world, ustr) prog" where
  "write_file_wrapper E args kwargs =
     write_file_impl E
       (case fst (extract_tool_args args kwargs) of
          r # rs \<Rightarrow> r
        | [] \<Rightarrow>
            (case args of
               a # as \<Rightarrow> (case filter (\<lambda>x. \<not> is_dict x) args of n # ns \<Rightarrow> n | [] \<Rightarrow> a)
             | [] \<Rightarrow> (case map_of kwargs (u ''file_path_and_content'') of Some v \<Rightarrow> v | None \<Rightarrow> Str [])))"

definition write_file :: "env \<Rightarrow> ustr \<Rightarrow> (world, ustr) prog" where
  "write_file E file_path_and_content = write_file_wrapper E [Str file_path_and_content] []"

subsection \<open>execute_terminal (lines 378 to 428)\<close>

definition dangerous_commands :: "ustr list" where
  "dangerous_commands =
     [u ''rm'', u ''del'', u ''format'', u ''mkfs'', u ''dd'', u ''shutdown'', u ''reboot'']"

text \<open>
  The loop of lines 402 to 405 returns at the first denylisted token the command starts
  with (\<open>find\<close>); only when there is none is the command given to the shell.
\<close>

definition execute_terminal :: "env \<Rightarrow> pyval list \<Rightarrow> (ustr \<times> pyval) list \<Rightarrow> (world, ustr) prog" where
  "execute_terminal E args kwargs =
     seq (lift (normalize_input (py_repr E) (tool_argument (u ''command'') args kwargs))) (\<lambda>command.
     let command_lower = strip (lower command) in
     case find (\<lambda>dangerous. startswith command_lower dangerous) dangerous_commands of
       Some dangerous \<Rightarrow> ret (msg_refusal dangerous)
     | None \<Rightarrow>
         try_except
           (seq (run_command E command) (\<lambda>result.
              let output = (if stdout result \<noteq> [] then stdout result else stderr result)
              in ret (msg_command_result (str_of_int (returncode result)) output)))
           (\<lambda>e. if exn_class_of e = TimeoutExpired then ret msg_command_timeout
                else ret (msg_command_error (exn_text e))))"

subsection \<open>get_weather (lines 431 to 552)\<close>

text \<open>
  A local variable is unbound until its first assignment; reading it before raises
  UnboundLocalError.
\<close>

datatype 'a local_var = Unbound | Bound 'a

definition max_retries :: nat where
  "max_retries = 3"

text \<open>
  The retry loop of lines 459 to 469, from attempt \<open>attempt\<close> with \<open>n\<close> attempts left.
  It gives the exception that leaves the loop (the one of the last attempt), if any, and
  the value of the variable \<open>location\<close>. Every query passes \<open>timeout=10\<close>.
\<close>

fun geocode_loop ::
  "env \<Rightarrow> ustr \<Rightarrow> nat \<Rightarrow> nat \<Rightarrow> location option \<Rightarrow> world \<Rightarrow> (exn option \<times> location option) \<times> world" where
  "geocode_loop E city attempt 0 loc w = ((None, loc), w)"
| "geocode_loop E city attempt (Suc n) loc w =
     (let w' = w\<lparr>net_log := net_log w @ [Geocode city (Some 10)]\<rparr> in
      case geocode E city attempt of
        Inr (Some l) \<Rightarrow> ((None, Some l), w')
      | Inr None \<Rightarrow> geocode_loop E city (Suc attempt) n None w'
      | Inl e \<Rightarrow>
          if attempt = max_retries - 1 then ((Some e, loc), w')
          else geocode_loop E city (Suc attempt) n loc w')"

definition weather_descriptions :: "(int \<times> ustr) list" where
  "weather_descriptions =
     [(0, [1071, 1089, 1085, 1086]),
      (1, [1055, 1088, 1077, 1080, 1084, 1091, 1097, 1077, 1089, 1090, 1074, 1077, 1085, 1085, 1086, 32, 1103, 1089, 1085, 1086]),
      (2, [1055, 1077, 1088, 1077, 1084, 1077, 1085, 1085, 1072, 1103, 32, 1086, 1073, 1083, 1072, 1095, 1085, 1086, 1089, 1090, 1100]),
      (3, [1055, 1072, 1089, 1084, 1091, 1088, 1085, 1086]),
      (45, [1058, 1091, 1084, 1072, 1085]),
      (48, [1048, 1079, 1084, 1086, 1088, 1086, 1079, 1100]),
      (51, [1051, 1077, 1075, 1082, 1072, 1103, 32, 1084, 1086, 1088, 1086, 1089, 1100]),
      (53, [1059, 1084, 1077, 1088, 1077, 1085, 1085, 1072, 1103, 32, 1084, 1086, 1088, 1086, 1089, 1100]),
      (55, [1057, 1080, 1083, 1100, 1085, 1072, 1103, 32, 1084, 1086, 1088, 1086, 1089, 1100]),
      (61, [1051, 1077, 1075, 1082, 1080, 1081, 32, 1076, 1086, 1078, 1076, 1100]),
      (63, [1059, 1084, 1077, 1088, 1077, 1085, 1085, 1099, 1081, 32, 1076, 1086, 1078, 1076, 1100]),
      (65, [1057, 1080, 1083, 1100, 1085, 1099, 1081, 32, 1076, 1086, 1078, 1076, 1100]),
      (71, [1051, 1077, 1075, 1082, 1080, 1081, 32, 1089, 1085, 1077, 1075]),
      (73, [1059, 1084, 1077, 1088, 1077, 1085, 1085, 1099, 1081, 32, 1089, 1085, 1077, 1075]),
      (75, [1057, 1080, 1083, 1100, 1085, 1099, 1081, 32, 1089, 1085, 1077, 1075]),
      (80, [1051, 1077, 1075, 1082, 1080, 1081, 32, 1083, 1080, 1074, 1077, 1085, 1100]),
      (81, [1059, 1084, 1077, 1088, 1077, 1085, 1085, 1099, 1081, 32, 1083, 1080, 1074, 1077, 1085, 1100]),
      (82, [1057, 1080, 1083, 1100, 1085, 1099, 1081, 32, 1083, 1080, 1074, 1077, 1085, 1100]),
      (85, [1057, 1085, 1077, 1075, 1086, 1087, 1072, 1076]),
      (86, [1057, 1080, 1083, 1100, 1085, 1099, 1081, 32, 1089, 1085, 1077, 1075, 1086, 1087, 1072, 1076]),
      (95, [1043, 1088, 1086, 1079, 1072]),
      (96, [1043, 1088, 1086, 1079, 1072, 32, 1089, 32, 1075, 1088, 1072, 1076, 1086, 1084]),
      (99, [1057, 1080, 1083, 1100, 1085, 1072, 1103, 32, 1075, 1088, 1086, 1079, 1072, 32, 1089, 32, 1075, 1088, 1072, 1076, 1086, 1084])]"

text \<open>Line 524: \<open>weather_descriptions.get(weathercode, f"...{weathercode}")\<close>.\<close>

definition describe_weather :: "(pyval \<Rightarrow> ustr) \<Rightarrow> pyval \<Rightarrow> exn + ustr" where
  "describe_weather R weathercode =
     and_then (int_key weathercode) (\<lambda>k.
       Inr (case (case k of Some i \<Rightarrow> map_of weather_descriptions i | None \<Rightarrow> None) of
              Some d \<Rightarrow> d
            | None \<Rightarrow> msg_weather_code (py_str R weathercode)))"

text \<open>Lines 475 to 533: the forecast request, with \<open>timeout=10\<close>, and the report.\<close>

definition weather_report :: "env \<Rightarrow> ustr \<Rightarrow> location \<Rightarrow> (world, ustr) prog" where
  "weather_report E city l =
     seq (send E \<lparr>hc_method = u ''GET'',
                  hc_url = weather_url (py_str (py_repr E) (latitude l)) (py_str (py_repr E) (longitude l)),
                  hc_headers = None, hc_json = None, hc_timeout = Some 10\<rparr>) (\<lambda>response.
     seq (lift (case raise_for_status response of Some e \<Rightarrow> Inl e | None \<Rightarrow> Inr ())) (\<lambda>ok.
     seq (lift (body_json response)) (\<lambda>data.
     seq (lift (py_in (u ''current_weather'') data)) (\<lambda>present.
     if \<not> present then ret msg_no_weather_data
     else
       seq (lift (py_getitem (py_repr E) data (u ''current_weather''))) (\<lambda>weather.
       seq (lift (dict_get weather (u ''temperature'') (Str (u ''N/A'')))) (\<lambda>temperature.
       seq (lift (dict_get weather (u ''windspeed'') (Str (u ''N/A'')))) (\<lambda>windspeed.
       seq (lift (dict_get weather (u ''weathercode'') (Str (u ''N/A'')))) (\<lambda>weathercode.
       seq (lift (describe_weather (py_repr E) weathercode)) (\<lambda>condition.
       ret (msg_weather city (py_str (py_repr E) temperature) (py_str (py_repr E) windspeed)
              condition))))))))))"

text \<open>
  The handler of lines 534 to 552. Its third test reads the variable \<open>location\<close>, which is
  assigned inside the \<open>try\<close>, after the geocoder is constructed.
\<close>

definition weather_handler :: "ustr \<Rightarrow> location option local_var \<Rightarrow> exn \<Rightarrow> exn + ustr" where
  "weather_handler city loc e =
     (let error_str = exn_text e in
      if contains (lower error_str) (u ''timeout'') \<or> contains (lower error_str) (u ''timed out'')
      then Inr msg_geocoder_timeout
      else if contains error_str (u ''GeocoderUnavailable'') \<or> contains (lower error_str) (u ''unavailable'')
      then Inr msg_geocoder_unavailable
      else if contains (lower error_str) (u ''not found'') then Inr (msg_city_not_found_check city)
      else
        (case loc of
           Unbound \<Rightarrow>
             Inl (Exn UnboundLocalError
                    (u ''cannot access local variable '' @ [39] @ u ''location'' @ [39] @
                     u '' where it is not associated with a value''))
         | Bound None \<Rightarrow> Inr (msg_city_not_found_check city)
         | Bound (Some l) \<Rightarrow> Inr (msg_weather_error city error_str)))"

definition get_weather :: "env \<Rightarrow> pyval list \<Rightarrow> (ustr \<times> pyval) list \<Rightarrow> (world, ustr) prog" where
  "get_weather E args kwargs =
     seq (lift (normalize_input (py_repr E) (tool_argument (u ''city'') args kwargs))) (\<lambda>city.
     case nominatim E of
       Some e \<Rightarrow> lift (weather_handler city Unbound e)
     | None \<Rightarrow>
         (\<lambda>w. case geocode_loop E city 0 max_retries None w of
                 ((Some e, loc), w') \<Rightarrow> (weather_handler city (Bound loc) e, w')
               | ((None, None), w') \<Rightarrow> (Inr (msg_city_not_found city), w')
               | ((None, Some l), w') \<Rightarrow>
                   try_except (weather_report E city l)
                     (\<lambda>e. lift (weather_handler city (Bound (Some l)) e)) w'))"

subsection \<open>get_crypto_price (lines 555 to 611)\<close>

text \<open>
  Lines 572 to 580: the argument as one text. A list is handled here and not by
  \<open>_normalize_input\<close>; the last branch takes the first element of a list that has neither
  one nor two elements.
\<close>

definition crypto_argument :: "(pyval \<Rightarrow> ustr) \<Rightarrow> pyval \<Rightarrow> exn + ustr" where
  "crypto_argument R v =
     (case v of
        List xs \<Rightarrow>
          (if length xs = 1 then map_sum id (py_str R) (item xs 0)
           else if length xs = 2 then
             and_then (item xs 0) (\<lambda>a. and_then (item xs 1) (\<lambda>b.
               Inr (py_str R a @ u '','' @ py_str R b)))
           else map_sum id (py_str R) (item xs 0))
      | _ \<Rightarrow> Inr (py_str R v))"

definition get_crypto_price :: "env \<Rightarrow> pyval list \<Rightarrow> (ustr \<times> pyval) list \<Rightarrow> (world, ustr) prog" where
  "get_crypto_price E args kwargs =
     seq (lift (crypto_argument (py_repr E) (tool_argument (u ''coin_and_currency'') args kwargs)))
       (\<lambda>coin_and_currency.
     try_except
       (let parts = split_on 44 coin_and_currency in
        seq (lift (item parts 0)) (\<lambda>p0.
        let coin = lower (strip p0);
            currency = (if length parts > 1 then lower (strip (parts ! 1)) else u ''usd'')
        in
        seq (send E \<lparr>hc_method = u ''GET'', hc_url = crypto_url coin currency,
                     hc_headers = None, hc_json = None, hc_timeout = None\<rparr>) (\<lambda>response.
        seq (lift (case raise_for_status response of Some e \<Rightarrow> Inl e | None \<Rightarrow> Inr ())) (\<lambda>ok.
        seq (lift (body_json response)) (\<lambda>data.
        seq (lift (py_in coin data)) (\<lambda>present.
        if \<not> present then ret (msg_coin_not_found coin)
        else
          seq (lift (py_getitem (py_repr E) data coin)) (\<lambda>entry.
          seq (lift (dict_get entry currency NoneV)) (\<lambda>price.
          if price = NoneV then ret (msg_currency_unsupported currency)
          else
            seq (lift (py_format E price (u '',.2f''))) (\<lambda>shown.
            ret (msg_price (upper coin) shown (upper currency)))))))))))
       (\<lambda>e. ret (msg_rate_error (exn_text e))))"

subsection \<open>get_currency_rate (lines 614 to 674)\<close>

text \<open>Lines 634 to 641: base and target currency of the input.\<close>

definition parse_currency_pair :: "ustr \<Rightarrow> exn + ustr \<times> ustr" where
  "parse_currency_pair currency_pair =
     (let parts = split_on 47
            (replace (u '' '') (u ''/'')
              (replace (u ''TO'') (u ''/'')
                (replace (u ''to'') (u ''/'') currency_pair)))
      in if length parts \<ge> 2 then
           and_then (item parts 0) (\<lambda>p0. and_then (item parts 1) (\<lambda>p1.
             Inr (upper (strip p0), upper (strip p1))))
         else and_then (item parts 0) (\<lambda>p0. Inr (u ''USD'', upper (strip p0))))"

text \<open>\<open>rates.keys()\<close>: only a dictionary has the method.\<close>

fun dict_keys :: "pyval \<Rightarrow> exn + ustr list" where
  "dict_keys (Dict d) = Inr (map fst d)"
| "dict_keys v =
     Inl (Exn AttributeError ([39] @ type_name v @ [39] @ u '' object has no attribute '' @ [39] @ u ''keys'' @ [39]))"

definition is_request_exception :: "exn \<Rightarrow> bool" where
  "is_request_exception e = (exn_class_of e = RequestException \<or> exn_class_of e = HTTPError)"

definition get_currency_rate :: "env \<Rightarrow> pyval list \<Rightarrow> (ustr \<times> pyval) list \<Rightarrow> (world, ustr) prog" where
  "get_currency_rate E args kwargs =
     seq (lift (normalize_input (py_repr E) (tool_argument (u ''currency_pair'') args kwargs)))
       (\<lambda>currency_pair.
     try_except
       (seq (lift (parse_currency_pair currency_pair)) (\<lambda>pair.
        let base_currency = fst pair; target_currency = snd pair in
        seq (send E \<lparr>hc_method = u ''GET'', hc_url = currency_url base_currency,
                     hc_headers = None, hc_json = None, hc_timeout = Some 10\<rparr>) (\<lambda>response.
        seq (lift (case raise_for_status response of Some e \<Rightarrow> Inl e | None \<Rightarrow> Inr ())) (\<lambda>ok.
        seq (lift (body_json response)) (\<lambda>data.
        seq (lift (and_then (dict_get data (u ''rates'') (Dict [])) py_len)) (\<lambda>logged.
        seq (lift (dict_get data (u ''rates'') (Dict []))) (\<lambda>rates.
        seq (lift (py_in target_currency rates)) (\<lambda>present.
        if \<not> present then
          seq (lift (dict_keys rates)) (\<lambda>keys.
          ret (msg_target_not_found target_currency (join (u '', '') (take 20 (sort keys)))))
        else
          seq (lift (py_getitem (py_repr E) rates target_currency)) (\<lambda>rate.
          seq (lift (py_format E rate (u ''.4f''))) (\<lambda>shown.
          ret (msg_rate base_currency target_currency shown)))))))))))
       (\<lambda>e. if is_request_exception e then ret (msg_currency_request_error (exn_text e))
            else ret (msg_rate_error (exn_text e))))"

section \<open>The agent (agent.py)\<close>

subsection \<open>Conversation memory: \<open>_load_memory\<close> (lines 163 to 190)\<close>

text \<open>
  \<open>add_user_message\<close> and \<open>add_ai_message\<close> of the orchestration library construct a
  message from the content they are given and append it to the memory. The constructor
  stores a text, and a list of texts and dictionaries, as it is; what it makes of any other
  content (a validation error, or a converted content) is the library's,
  \<open>library_content\<close>.
\<close>

fun is_str :: "pyval \<Rightarrow> bool" where
  "is_str (Str t) = True"
| "is_str v = False"

fun plain_content :: "pyval \<Rightarrow> bool" where
  "plain_content (Str t) = True"
| "plain_content (List xs) = list_all (\<lambda>x. is_str x \<or> is_dict x) xs"
| "plain_content v = False"

definition stored_content :: "env \<Rightarrow> pyval \<Rightarrow> exn + pyval" where
  "stored_content E c = (if plain_content c then Inr c else library_content E c)"

definition add_message :: "env \<Rightarrow> role \<Rightarrow> pyval \<Rightarrow> (agent_state, unit) prog" where
  "add_message E r c =
     (\<lambda>s. case stored_content E c of
             Inr stored \<Rightarrow> (Inr (), s\<lparr>memory := memory s @ [\<lparr>msg_class = r, content = stored\<rparr>]\<rparr>)
           | Inl e \<Rightarrow> (Inl e, s))"

text \<open>
  The loop of lines 177 to 183. Each entry is added to the memory as soon as it is read:
  an exception at a later entry leaves the earlier ones in the memory. An entry whose type
  is neither \<open>human\<close> nor \<open>ai\<close> is skipped.
\<close>

fun load_messages :: "env \<Rightarrow> pyval list \<Rightarrow> (agent_state, unit) prog" where
  "load_messages E [] = ret ()"
| "load_messages E (msg # rest) =
     seq (lift (py_getitem (py_repr E) msg (u ''type''))) (\<lambda>t.
       if t = Str (u ''human'') then
         seq (lift (py_getitem (py_repr E) msg (u ''content''))) (\<lambda>c.
         seq (add_message E HumanMessage c) (\<lambda>added. load_messages E rest))
       else if t = Str (u ''ai'') then
         seq (lift (py_getitem (py_repr E) msg (u ''content''))) (\<lambda>c.
         seq (add_message E AIMessage c) (\<lambda>added. load_messages E rest))
       else load_messages E rest)"

text \<open>
  \<open>json.load\<close> of the memory file. The function is called only when the file exists.
\<close>

definition read_memory_file :: "(agent_state, pyval) prog" where
  "read_memory_file =
     (\<lambda>s. case memory_file s of
             Document d \<Rightarrow> (Inr d, s)
           | Unparseable \<Rightarrow> (Inl (Exn ValueError (u ''Expecting value: line 1 column 1 (char 0)'')), s)
           | NoFile \<Rightarrow> (Inl (Exn OtherError (u ''[Errno 2] No such file or directory'')), s))"

text \<open>
  \<open>_load_memory\<close>. The log line of line 172 evaluates
  \<open>len(memory_data.get('messages', []))\<close> inside the \<open>try\<close>. The handler only logs.
\<close>

definition load_memory :: "env \<Rightarrow> (agent_state, unit) prog" where
  "load_memory E =
     (\<lambda>s. if memory_file s \<noteq> NoFile then
             try_except
               (seq read_memory_file (\<lambda>memory_data.
                seq (lift (and_then (dict_get memory_data (u ''messages'') (List [])) py_len)) (\<lambda>logged.
                seq (lift (py_in (u ''messages'') memory_data)) (\<lambda>present.
                if present then
                  seq (lift (and_then (py_getitem (py_repr E) memory_data (u ''messages'')) py_iter)) (\<lambda>msgs.
                  load_messages E msgs)
                else ret ()))))
               (\<lambda>e. ret ()) s
           else (Inr (), s))"

subsection \<open>Conversation memory: \<open>_generate_summary\<close> and \<open>_save_memory\<close> (lines 192 to 248)\<close>

text \<open>Lines 232 to 235: the prompt, with \<open>str\<close> of the content of each message.\<close>

definition summary_prompt :: "(pyval \<Rightarrow> ustr) \<Rightarrow> message list \<Rightarrow> ustr" where
  "summary_prompt R recent_messages =
     summary_prompt_head @
     concat (map (\<lambda>m. summary_line (if msg_class m = HumanMessage then role_user else role_agent)
                        (py_str R (content m))) recent_messages)"

text \<open>
  \<open>_generate_summary\<close>: the answer of the summary model, or a fixed text when there is
  no message or when the call, or the slice \<open>summary[:50]\<close> of the log line, raises.
\<close>

definition generate_summary :: "env \<Rightarrow> message list \<Rightarrow> pyval" where
  "generate_summary E messages =
     (let recent_messages = drop (length messages - 10) messages in
      if recent_messages = [] then Str summary_empty
      else (case summary_llm E (summary_prompt (py_repr E) recent_messages) of
              Inr summary \<Rightarrow>
                (case py_slice_ok summary of
                   Inr sliced \<Rightarrow> summary
                 | Inl e \<Rightarrow> Str summary_failed)
            | Inl e \<Rightarrow> Str summary_failed))"

text \<open>Lines 199 to 203: the entry written for a message.\<close>

definition message_entry :: "message \<Rightarrow> pyval" where
  "message_entry m =
     Dict [(u ''type'', Str (if msg_class m = HumanMessage then u ''human'' else u ''ai'')),
           (u ''content'', content m)]"

text \<open>
  Line 216: opening the memory file for writing. When the operating system refuses, the
  file stays as it was; otherwise the file is empty from then on.
\<close>

definition open_memory_file :: "env \<Rightarrow> (agent_state, unit) prog" where
  "open_memory_file E =
     (\<lambda>s. case memory_open_error E of
             Some e \<Rightarrow> (Inl e, s)
           | None \<Rightarrow> (Inr (), s\<lparr>memory_file := Unparseable\<rparr>))"

text \<open>
  Line 217: \<open>json.dump(memory_data, f, ensure_ascii=False, indent=2)\<close> writes the
  document piece by piece. A text that cannot be encoded raises \<open>UnicodeEncodeError\<close>
  when its piece is written: the file keeps the beginning of the document, from which no
  document can be read. The handler of the caller only logs the exception, whose text is
  not followed here.
\<close>

definition json_dump :: "pyval \<Rightarrow> (agent_state, unit) prog" where
  "json_dump d =
     (\<lambda>s. if encodable_value d then (Inr (), s\<lparr>memory_file := Document d\<rparr>)
           else (Inl (Exn UnicodeEncodeError (u ''surrogates not allowed'')),
                 s\<lparr>memory_file := Unparseable\<rparr>))"

text \<open>
  \<open>_save_memory\<close>: the whole message list and a fresh summary replace the content of the
  file. The handler of lines 219 and 220 only logs.
\<close>

definition save_memory :: "env \<Rightarrow> (agent_state, unit) prog" where
  "save_memory E =
     try_except
       (\<lambda>s. (let messages = map message_entry (memory s);
                  summary = generate_summary E (memory s);
                  memory_data = Dict [(u ''messages'', List messages), (u ''summary'', summary)]
              in seq (open_memory_file E) (\<lambda>opened. json_dump memory_data)) s)
       (\<lambda>e. ret ())"

subsection \<open>\<open>process\<close> (lines 250 to 317)\<close>

text \<open>The handler of lines 277 to 317, on the text of the exception.\<close>

definition error_message :: "ustr \<Rightarrow> ustr" where
  "error_message error_str =
     (if contains error_str (u ''403'')
         \<or> contains (lower error_str) (u ''unsupported_country_region_territory'')
      then msg_region
      else if contains error_str (u ''401'') \<or> contains (lower error_str) (u ''invalid_api_key'')
      then msg_auth
      else if contains error_str (u ''429'') \<or> contains (lower error_str) (u ''rate_limit'')
      then msg_rate_limit
      else msg_generic error_str)"

text \<open>
  The agent executor runs the dispatch cycle; on success the orchestration library has
  stored the new messages in the memory.
\<close>

definition invoke_executor :: "env \<Rightarrow> ustr \<Rightarrow> (agent_state, pyval) prog" where
  "invoke_executor E user_input =
     (\<lambda>s. case executor_invoke E user_input (memory s) of
             (r, mem) \<Rightarrow> (r, s\<lparr>memory := mem\<rparr>))"

text \<open>
  \<open>process\<close>. The two log lines after the call evaluate \<open>len(answer)\<close> and
  \<open>answer[:200]\<close> inside the \<open>try\<close>.
\<close>

definition process :: "env \<Rightarrow> ustr \<Rightarrow> (agent_state, pyval) prog" where
  "process E user_input =
     try_except
       (seq (invoke_executor E user_input) (\<lambda>response.
        seq (lift (dict_get response (u ''output'') (Str msg_default_answer))) (\<lambda>answer.
        seq (lift (py_len answer)) (\<lambda>n.
        seq (lift (py_slice_ok answer)) (\<lambda>sliced.
        seq (save_memory E) (\<lambda>saved.
        ret answer))))))
       (\<lambda>e. ret (Str (error_message (exn_text e))))"

section \<open>Notions of the specification\<close>

text \<open>
  The indicator with which every error message of \<open>process\<close> begins: a cross mark and
  the word for ``error''.
\<close>

definition error_indicator :: "ustr" where
  "error_indicator = [10060, 32, 1054, 1096, 1080, 1073, 1082, 1072]"



text \<open>
  The agent at startup (\<open>__init__\<close>, lines 108 to 116): a new, empty memory, into which
  \<open>_load_memory\<close> reads the file.
\<close>

definition startup :: "env \<Rightarrow> memfile \<Rightarrow> (exn + unit) \<times> agent_state" where
  "startup E mfile = load_memory E \<lparr>memory = [], memory_file = mfile\<rparr>"

text \<open>
  The file that persisting the memory \<open>ms\<close> leaves, when the file was \<open>mfile\<close> before.
\<close>

definition persisted :: "env \<Rightarrow> message list \<Rightarrow> memfile \<Rightarrow> memfile" where
  "persisted E ms mfile = memory_file (snd (save_memory E \<lparr>memory = ms, memory_file = mfile\<rparr>))"

text \<open>
  A well-formed entry of the persisted message list: an object with a \<open>type\<close> which, when
  the type is \<open>human\<close> or \<open>ai\<close>, has a \<open>content\<close> that the library accepts. Every other
  entry is malformed.
\<close>

fun well_formed_entry :: "env \<Rightarrow> pyval \<Rightarrow> bool" where
  "well_formed_entry E (Dict d) =
     (case map_of d (u ''type'') of
        None \<Rightarrow> False
      | Some t \<Rightarrow>
          if t = Str (u ''human'') \<or> t = Str (u ''ai'')
          then (case map_of d (u ''content'') of
                  None \<Rightarrow> False
                | Some c \<Rightarrow> (case stored_content E c of Inr stored \<Rightarrow> True | Inl e \<Rightarrow> False))
          else True)"
| "well_formed_entry E v = False"

text \<open>
  The messages that a well-formed entry stands for: one for a \<open>human\<close> or \<open>ai\<close> entry,
  none for an entry of another type.
\<close>

fun entry_messages :: "env \<Rightarrow> pyval \<Rightarrow> message list" where
  "entry_messages E (Dict d) =
     (case (map_of d (u ''type''), map_of d (u ''content'')) of
        (Some t, Some c) \<Rightarrow>
          (case stored_content E c of
             Inr stored \<Rightarrow>
               if t = Str (u ''human'') then [\<lparr>msg_class = HumanMessage, content = stored\<rparr>]
               else if t = Str (u ''ai'') then [\<lparr>msg_class = AIMessage, content = stored\<rparr>]
               else []
           | Inl e \<Rightarrow> [])
      | _ \<Rightarrow> [])"
| "entry_messages E v = []"

section \<open>Sample environments\<close>

text \<open>
  Concrete worlds and environments, on which the theorems are instantiated. In
  \<open>sample_env t\<close> the network is down, the geocoder finds nothing, the agent executor
  raises an exception with the text \<open>t\<close>, the shell leaves a sentinel file named after
  each command it runs, the operating system refuses a directory where a file was written
  and a file where a directory was made, and the library rejects every content that is
  neither a text nor a list of texts and dictionaries.
\<close>

definition empty_world :: world where
  "empty_world = \<lparr>files = Map.empty, dirs = [], net_log = [], processes = []\<rparr>"

definition sample_repr :: "pyval \<Rightarrow> ustr" where
  "sample_repr v = [39] @ py_str (\<lambda>x. u ''...'') v @ [39]"

definition sample_env :: "ustr \<Rightarrow> env" where
  "sample_env t =
     \<lparr>py_repr = sample_repr,
      py_format = (\<lambda>v spec. Inl (Exn ValueError (u ''Unknown format code''))),
      json_loads = (\<lambda>s. Inl (Exn ValueError (u ''Expecting value''))),
      requests_send = (\<lambda>call. Inl (Exn RequestException (u ''Connection refused''))),
      ddgs_text = (\<lambda>query. Inl (Exn OtherError (u ''Connection refused''))),
      nominatim = None,
      geocode = (\<lambda>city attempt. Inr None),
      subprocess_run = (\<lambda>command w.
        (Inr \<lparr>returncode = 0, stdout = [], stderr = []\<rparr>, w\<lparr>files := (files w)(command \<mapsto> [])\<rparr>)),
      os_makedirs_error = (\<lambda>d w. if files w d \<noteq> None
        then Some (Exn FileExistsError (u ''[Errno 17] File exists: '' @ sample_repr (Str d)))
        else None),
      os_open_error = (\<lambda>p w. if List.member (dirs w) p
        then Some (Exn IsADirectoryError (u ''[Errno 21] Is a directory: '' @ sample_repr (Str p)))
        else None),
      memory_open_error = None,
      library_content = (\<lambda>c. Inl (Exn ValueError (u ''validation error for message content''))),
      executor_invoke = (\<lambda>user_input mem. (Inl (Exn OtherError t), mem)),
      summary_llm = (\<lambda>prompt. Inr (Str (u ''A short summary.'')))\<rparr>"

text \<open>An environment in which constructing the geocoder fails.\<close>

definition no_geocoder_env :: env where
  "no_geocoder_env = (sample_env [])\<lparr>nominatim := Some (Exn OtherError (u ''adapter configuration error''))\<rparr>"

text \<open>
  A persisted document whose second entry has no \<open>content\<close>, and three messages.
\<close>

definition broken_document :: pyval where
  "broken_document =
     Dict [(u ''messages'',
            List [Dict [(u ''type'', Str (u ''human'')), (u ''content'', Str (u ''hi''))],
                  Dict [(u ''type'', Str (u ''ai''))],
                  Dict [(u ''type'', Str (u ''human'')), (u ''content'', Str (u ''bye''))]]),
           (u ''summary'', Str (u ''A short summary.''))]"

text \<open>
  A persisted document with a skipped entry of another type, an entry with an extra key
  and a list as content, and a number in the place of the fourth entry.
\<close>

definition mixed_document :: pyval where
  "mixed_document =
     Dict [(u ''messages'',
            List [Dict [(u ''type'', Str (u ''human'')), (u ''content'', Str (u ''hi''))],
                  Dict [(u ''type'', Str (u ''system'')), (u ''content'', Str (u ''note''))],
                  Dict [(u ''id'', IntV 7), (u ''type'', Str (u ''ai'')),
                        (u ''content'', List [Str (u ''x'')])],
                  IntV 3,
                  Dict [(u ''type'', Str (u ''human'')), (u ''content'', Str (u ''bye''))]])]"


text \<open>
  An environment in which the rates provider answers with the rates of USD and EUR, and
  the rate 0.9 is shown as \<open>0.9000\<close>.
\<close>

definition rates_env :: env where
  "rates_env = (sample_env [])\<lparr>
     requests_send := (\<lambda>call. Inr \<lparr>status_code = 200, body_text = [], raise_for_status = None,
        body_json = Inr (Dict [(u ''base'', Str (u ''USD'')),
                               (u ''rates'', Dict [(u ''USD'', IntV 1), (u ''EUR'', FloatV (9 / 10))])])\<rparr>),
     py_format := (\<lambda>v spec. if v = FloatV (9 / 10) \<and> spec = u ''.4f'' then Inr (u ''0.9000'')
                              else Inl (Exn ValueError (u ''Unknown format code'')))\<rparr>"

section \<open>Basic facts\<close>

lemma seq_lift_Inr [simp]: "seq (lift (Inr x)) f = f x"
  by (simp add: seq_def lift_def)

lemma seq_lift_Inl [simp]: "seq (lift (Inl e)) f = lift (Inl e)"
  by (simp add: seq_def lift_def)

lemma seq_ret [simp]: "seq (ret x) f = f x"
  by (simp add: seq_def ret_def)

lemma lift_apply [simp]: "lift r s = (r, s)"
  by (simp add: lift_def)

lemma ret_apply [simp]: "ret x s = (Inr x, s)"
  by (simp add: ret_def)

lemma startswith_iff: "startswith s p \<longleftrightarrow> (\<exists>q. s = p @ q)"
  unfolding startswith_def
  by (metis append_eq_conv_conj append_take_drop_id)

text \<open>\<open>sub in s\<close> holds exactly when \<open>s\<close> is some text, then \<open>sub\<close>, then some text.\<close>

lemma contains_iff: "contains s sub \<longleftrightarrow> (\<exists>p q. s = p @ sub @ q)"
proof (induction s)
  case Nil
  then show ?case by auto
next
  case (Cons c cs)
  show ?case
  proof
    assume "contains (c # cs) sub"
    then consider (here) "startswith (c # cs) sub" | (later) "contains cs sub" by auto
    then show "\<exists>p q. c # cs = p @ sub @ q"
    proof cases
      case here
      then obtain q where "c # cs = sub @ q" by (auto simp: startswith_iff)
      then have "c # cs = [] @ sub @ q" by simp
      then show ?thesis by blast
    next
      case later
      then obtain p q where "cs = p @ sub @ q" using Cons.IH by auto
      then have "c # cs = (c # p) @ sub @ q" by simp
      then show ?thesis by blast
    qed
  next
    assume "\<exists>p q. c # cs = p @ sub @ q"
    then obtain p q where pq: "c # cs = p @ sub @ q" by auto
    show "contains (c # cs) sub"
    proof (cases p)
      case Nil
      then have "startswith (c # cs) sub" using pq by (auto simp: startswith_iff)
      then show ?thesis by simp
    next
      case (Cons a p')
      then have "cs = p' @ sub @ q" using pq by simp
      then show ?thesis using Cons.IH by auto
    qed
  qed
qed

text \<open>A marker written in lower case that occurs in a text occurs in its lower-cased form.\<close>

lemma contains_lower:
  assumes "contains s sub" and "lower sub = sub"
  shows "contains (lower s) sub"
proof -
  from assms(1) obtain p q where "s = p @ sub @ q" by (auto simp: contains_iff)
  then have "lower s = lower p @ lower sub @ lower q" by (simp add: lower_def)
  then show ?thesis using assms(2) by (auto simp: contains_iff)
qed

lemma normalize_input_Str [simp]: "normalize_input R (Str s) = Inr s"
  by (simp add: normalize_input_def)

lemma tool_argument_single [simp]: "\<not> is_dict v \<Longrightarrow> tool_argument key [v] kwargs = v"
  by (simp add: tool_argument_def extract_tool_args_def)

section \<open>The argument normalizer\<close>

lemma normalize_input_scalar:
  "\<not> is_list v \<Longrightarrow> normalize_input R v = Inr (py_str R v)"
  by (cases v) (simp_all add: normalize_input_def)

lemma normalize_input_total: "\<exists>s. normalize_input R v = Inr s"
proof (cases v)
  case (List xs)
  show ?thesis
  proof (cases "filter (\<lambda>x. \<not> is_dict x) xs")
    case Nil
    then show ?thesis using List
      by (cases xs) (simp_all add: normalize_input_def item_def)
  next
    case (Cons r rs)
    then show ?thesis using List
      by (simp add: normalize_input_def Let_def item_def)
  qed
qed (simp_all add: normalize_input_def)

text \<open>
  Claim C4. The normalizer follows the case analysis of the specification: a value that is
  not a list gives its string form; for a list, with \<open>real\<close> its entries that are not
  dictionaries: no real entry and one element overall gives that element, no real entry
  otherwise joins all elements with one space, one real entry gives it, several real
  entries are joined with one space; the empty list gives the empty text. The function
  takes the value alone (no state, no file, no network), and it returns a text for every
  input: neither subscript can raise.
\<close>

theorem C4_normalize_input_cases:
  "(\<not> is_list v \<longrightarrow> normalize_input R v = Inr (py_str R v))
   \<and> (filter (\<lambda>x. \<not> is_dict x) xs = [] \<and> xs = [x]
        \<longrightarrow> normalize_input R (List xs) = Inr (py_str R x))
   \<and> (filter (\<lambda>x. \<not> is_dict x) xs = [] \<and> length xs \<noteq> 1
        \<longrightarrow> normalize_input R (List xs) = Inr (join (u '' '') (map (py_str R) xs)))
   \<and> (filter (\<lambda>x. \<not> is_dict x) xs = [r]
        \<longrightarrow> normalize_input R (List xs) = Inr (py_str R r))
   \<and> (1 < length (filter (\<lambda>x. \<not> is_dict x) xs)
        \<longrightarrow> normalize_input R (List xs)
            = Inr (join (u '' '') (map (py_str R) (filter (\<lambda>x. \<not> is_dict x) xs))))
   \<and> normalize_input R (List []) = Inr []
   \<and> (\<exists>s. normalize_input R v = Inr s)"
proof -
  have scalar: "\<not> is_list v \<longrightarrow> normalize_input R v = Inr (py_str R v)"
    by (simp add: normalize_input_scalar)
  have one_meta: "filter (\<lambda>x. \<not> is_dict x) xs = [] \<and> xs = [x]
        \<longrightarrow> normalize_input R (List xs) = Inr (py_str R x)"
    by (auto simp: normalize_input_def item_def)
  have all_meta: "filter (\<lambda>x. \<not> is_dict x) xs = [] \<and> length xs \<noteq> 1
        \<longrightarrow> normalize_input R (List xs) = Inr (join (u '' '') (map (py_str R) xs))"
    by (simp add: normalize_input_def)
  have one_real: "filter (\<lambda>x. \<not> is_dict x) xs = [r]
        \<longrightarrow> normalize_input R (List xs) = Inr (py_str R r)"
    by (simp add: normalize_input_def item_def)
  have many_real: "1 < length (filter (\<lambda>x. \<not> is_dict x) xs)
        \<longrightarrow> normalize_input R (List xs)
            = Inr (join (u '' '') (map (py_str R) (filter (\<lambda>x. \<not> is_dict x) xs)))"
    by (auto simp: normalize_input_def Let_def)
  have empty: "normalize_input R (List []) = Inr []"
    by (simp add: normalize_input_def)
  from scalar one_meta all_meta one_real many_real empty normalize_input_total [of R v]
  show ?thesis by blast
qed

theorem C4_normalize_input_witness:
  "normalize_input (\<lambda>v. u ''{}'') (Str (u ''Paris'')) = Inr (u ''Paris'')
   \<and> normalize_input (\<lambda>v. u ''{}'') (List [Dict []]) = Inr (u ''{}'')
   \<and> normalize_input (\<lambda>v. u ''{}'') (List [Dict [], Dict []]) = Inr (u ''{} {}'')
   \<and> normalize_input (\<lambda>v. u ''{}'') (List [Str (u ''Paris''), Dict [(u ''call_id'', Str (u ''x''))]])
       = Inr (u ''Paris'')
   \<and> normalize_input (\<lambda>v. u ''{}'') (List [Str (u ''New''), Dict [], Str (u ''York'')])
       = Inr (u ''New York'')"
  using C4_normalize_input_cases [of "Str (u ''Paris'')" "\<lambda>v. u ''{}''" "[Dict []]" "Dict []" "Dict []"]
    C4_normalize_input_cases [of "Str (u ''Paris'')" "\<lambda>v. u ''{}''" "[Dict [], Dict []]" "Dict []" "Dict []"]
    C4_normalize_input_cases [of "Str (u ''Paris'')" "\<lambda>v. u ''{}''"
      "[Str (u ''Paris''), Dict [(u ''call_id'', Str (u ''x''))]]" "Dict []" "Str (u ''Paris'')"]
    C4_normalize_input_cases [of "Str (u ''Paris'')" "\<lambda>v. u ''{}''"
      "[Str (u ''New''), Dict [], Str (u ''York'')]" "Dict []" "Str (u ''Paris'')"]
  by simp

section \<open>The crypto-price tool\<close>

text \<open>
  Claim C10. For a list argument the crypto-price tool does its own normalization: one
  element gives that element, two elements are joined with a comma, and a list of three or
  more elements gives its first element only. The general normalizer joins the same lists
  with spaces, so the two differ on every list of two texts, and on a list of three texts
  the general normalizer keeps all of them where the tool keeps the first.
\<close>

theorem C10_crypto_argument_list:
  "crypto_argument R (List [a]) = Inr (py_str R a)
   \<and> crypto_argument R (List [a, b]) = Inr (py_str R a @ u '','' @ py_str R b)
   \<and> crypto_argument R (List (a # b # c # rest)) = Inr (py_str R a)
   \<and> normalize_input R (List [Str s, Str t]) = Inr (s @ u '' '' @ t)
   \<and> crypto_argument R (List [Str s, Str t]) \<noteq> normalize_input R (List [Str s, Str t])
   \<and> normalize_input R (List [Str s, Str t, Str t']) = Inr (s @ u '' '' @ t @ u '' '' @ t')
   \<and> get_crypto_price E [List xs] [] w
       = seq (lift (crypto_argument (py_repr E) (List xs)))
           (\<lambda>arg. get_crypto_price E [Str arg] []) w"
proof -
  have one: "crypto_argument R (List [a]) = Inr (py_str R a)"
    by (simp add: crypto_argument_def item_def)
  have two: "crypto_argument R (List [a, b]) = Inr (py_str R a @ u '','' @ py_str R b)"
    by (simp add: crypto_argument_def item_def and_then_def)
  have many: "crypto_argument R (List (a # b # c # rest)) = Inr (py_str R a)"
    by (simp add: crypto_argument_def item_def)
  have norm_two: "normalize_input R (List [Str s, Str t]) = Inr (s @ u '' '' @ t)"
    by (simp add: normalize_input_def)
  have differ: "crypto_argument R (List [Str s, Str t]) \<noteq> normalize_input R (List [Str s, Str t])"
    by (simp add: crypto_argument_def item_def and_then_def normalize_input_def)
  have norm_three:
    "normalize_input R (List [Str s, Str t, Str t']) = Inr (s @ u '' '' @ t @ u '' '' @ t')"
    by (simp add: normalize_input_def)
  have tool: "get_crypto_price E [List xs] [] w
       = seq (lift (crypto_argument (py_repr E) (List xs)))
           (\<lambda>arg. get_crypto_price E [Str arg] []) w"
    by (simp add: get_crypto_price_def crypto_argument_def)
  from one two many norm_two differ norm_three tool show ?thesis by blast
qed

theorem C10_crypto_argument_witness:
  "crypto_argument sample_repr (List [Str (u ''bitcoin'')]) = Inr (u ''bitcoin'')
   \<and> crypto_argument sample_repr (List [Str (u ''bitcoin''), Str (u ''eur'')]) = Inr (u ''bitcoin,eur'')
   \<and> crypto_argument sample_repr (List [Str (u ''bitcoin''), Str (u ''eur''), Str (u ''now'')])
       = Inr (u ''bitcoin'')
   \<and> normalize_input sample_repr (List [Str (u ''bitcoin''), Str (u ''eur''), Str (u ''now'')])
       = Inr (u ''bitcoin eur now'')"
  using C10_crypto_argument_list [of sample_repr "Str (u ''bitcoin'')" "Str (u ''eur'')"
      "Str (u ''now'')" "[]" "u ''bitcoin''" "u ''eur''" "u ''now''"]
  by simp

text \<open>
  The write-file tool has the same three branches as the crypto-price tool for a list
  argument, and guards the subscript of the last one: the empty list is the empty text.
\<close>

lemma write_file_argument_total: "\<exists>s. write_file_argument R v = Inr s"
proof (cases v)
  case (List xs)
  show ?thesis
  proof (cases "filter (\<lambda>x. \<not> is_dict x) xs")
    case Nil
    then show ?thesis using List
      by (cases xs) (simp_all add: write_file_argument_def item_def)
  next
    case (Cons r rs)
    then show ?thesis using List
      by (cases rs) (simp_all add: write_file_argument_def Let_def item_def and_then_def)
  qed
qed (simp_all add: write_file_argument_def)

lemma write_file_argument_empty: "write_file_argument R (List []) = Inr []"
  by (simp add: write_file_argument_def)

section \<open>The shell tool\<close>

text \<open>
  When the command the tool takes from its arguments starts, lower-cased and trimmed, with
  a denylisted token, the tool returns the refusal for the first such token and the world
  is the one it was called in.
\<close>

lemma execute_terminal_refuses:
  assumes "normalize_input (py_repr E) (tool_argument (u ''command'') args kwargs) = Inr command"
    and "find (\<lambda>d. startswith (strip (lower command)) d) dangerous_commands = Some d"
  shows "execute_terminal E args kwargs w = (Inr (msg_refusal d), w)"
  using assms by (simp add: execute_terminal_def Let_def)

text \<open>
  Claim C3. For every command whose lower-cased, trimmed form starts with a token of the
  denylist, \<open>execute_terminal\<close> returns the refusal text of a denylisted token and leaves
  the world unchanged: no process is started (\<open>processes\<close>), and no file or directory
  changes, whatever the shell of the environment would have done with the command.
\<close>

theorem C3_denylist_refuses:
  assumes "\<exists>d \<in> set dangerous_commands. startswith (strip (lower command)) d"
  shows "\<exists>d \<in> set dangerous_commands.
           execute_terminal E [Str command] [] w = (Inr (msg_refusal d), w)"
proof -
  from assms obtain d where
    found: "find (\<lambda>d. startswith (strip (lower command)) d) dangerous_commands = Some d"
    by (cases "find (\<lambda>d. startswith (strip (lower command)) d) dangerous_commands")
       (auto simp: find_None_iff)
  then have "d \<in> set dangerous_commands"
    by (auto simp: find_Some_iff)
  moreover have "execute_terminal E [Str command] [] w = (Inr (msg_refusal d), w)"
    using execute_terminal_refuses [of E "[Str command]" "[]" command d w] found by simp
  ultimately show ?thesis by blast
qed

text \<open>
  The instance: \<open>rm -rf /\<close>, with leading blanks and in upper case, is refused and the
  world stays empty, in an environment whose shell would have left a sentinel file; the
  command \<open>ls\<close>, which is not denylisted, is run there and leaves its sentinel.
\<close>

theorem C3_denylist_witness:
  "(\<exists>d \<in> set dangerous_commands.
      execute_terminal (sample_env []) [Str (u ''  RM -rf /'')] [] empty_world
        = (Inr (msg_refusal d), empty_world))
   \<and> processes (snd (execute_terminal (sample_env []) [Str (u ''ls'')] [] empty_world)) = [u ''ls'']
   \<and> files (snd (execute_terminal (sample_env []) [Str (u ''ls'')] [] empty_world)) (u ''ls'') = Some []"
proof -
  have "strip (lower (u ''  RM -rf /'')) = u ''rm -rf /''"
    by (simp add: strip_def lower_def lstrip_def rstrip_def is_space_def lower_cp_def lower_special_def)
  then have "\<exists>d \<in> set dangerous_commands. startswith (strip (lower (u ''  RM -rf /''))) d"
    by (simp add: dangerous_commands_def startswith_def)
  from C3_denylist_refuses [OF this, of "sample_env []" empty_world]
  have refused: "\<exists>d \<in> set dangerous_commands.
      execute_terminal (sample_env []) [Str (u ''  RM -rf /'')] [] empty_world
        = (Inr (msg_refusal d), empty_world)" .
  have run: "execute_terminal (sample_env []) [Str (u ''ls'')] [] empty_world
      = (Inr (msg_command_result (u ''0'') []),
         empty_world\<lparr>processes := [u ''ls''], files := (files empty_world)(u ''ls'' \<mapsto> [])\<rparr>)"
    by (simp add: execute_terminal_def Let_def strip_def lower_def lstrip_def rstrip_def
          is_space_def lower_cp_def lower_special_def dangerous_commands_def startswith_def try_except_def seq_def
          run_command_def sample_env_def empty_world_def str_of_int_def)
  from refused run show ?thesis by simp
qed

section \<open>Timeouts of the network tools\<close>

lemma http_dispatch_no_timeout:
  "http_dispatch method url headers_dict data_dict = Some call \<Longrightarrow> hc_timeout call = None"
  by (auto simp: http_dispatch_def split: if_splits)

text \<open>
  Claim C7 asks for a finite timeout on every outbound request. The request of
  \<open>http_request\<close> and the request of \<open>get_crypto_price\<close> are sent without one: the call
  of \<open>requests\<close> passes no \<open>timeout\<close>, so the library waits without bound. Whatever
  the environment, the call below is what reaches the network.
\<close>

theorem C7_requests_without_timeout:
  "net_log (snd (http_request E [Str (u ''GET|https://example.com'')] [] w))
     = net_log w @ [Http \<lparr>hc_method = u ''GET'', hc_url = u ''https://example.com'',
                           hc_headers = Some (Dict []), hc_json = None, hc_timeout = None\<rparr>]
   \<and> net_log (snd (get_crypto_price E [Str (u ''bitcoin'')] [] w))
     = net_log w @ [Http \<lparr>hc_method = u ''GET'',
          hc_url = u ''https://api.coingecko.com/api/v3/simple/price?ids=bitcoin&vs_currencies=usd'',
          hc_headers = None, hc_json = None, hc_timeout = None\<rparr>]"
proof -
  have http: "net_log (snd (http_request E [Str (u ''GET|https://example.com'')] [] w))
     = net_log w @ [Http \<lparr>hc_method = u ''GET'', hc_url = u ''https://example.com'',
                           hc_headers = Some (Dict []), hc_json = None, hc_timeout = None\<rparr>]"
    by (simp add: http_request_def http_argument_def Let_def strip_def lstrip_def rstrip_def
          is_space_def upper_def upper_cp_def upper_special_def http_dispatch_def try_except_def seq_def send_def
          split: sum.splits prod.splits option.splits)
  have crypto: "net_log (snd (get_crypto_price E [Str (u ''bitcoin'')] [] w))
     = net_log w @ [Http \<lparr>hc_method = u ''GET'',
          hc_url = u ''https://api.coingecko.com/api/v3/simple/price?ids=bitcoin&vs_currencies=usd'',
          hc_headers = None, hc_json = None, hc_timeout = None\<rparr>]"
    by (simp add: get_crypto_price_def crypto_argument_def Let_def strip_def lstrip_def rstrip_def
          is_space_def lower_def lower_cp_def lower_special_def item_def crypto_url_def try_except_def seq_def
          send_def split: sum.splits prod.splits option.splits)
  from http crypto show ?thesis by simp
qed

text \<open>
  The currency tool and the weather tool do pass \<open>timeout=10\<close>, on the request and on
  every geocoding query.
\<close>

lemma currency_request_timeout:
  "net_log (snd (get_currency_rate E [Str (u ''USD/EUR'')] [] w))
     = net_log w @ [Http \<lparr>hc_method = u ''GET'',
          hc_url = u ''https://api.exchangerate-api.com/v4/latest/USD'',
          hc_headers = None, hc_json = None, hc_timeout = Some 10\<rparr>]"
  by (simp add: get_currency_rate_def parse_currency_pair_def startswith_def item_def
        and_then_def strip_def lstrip_def rstrip_def is_space_def upper_def upper_cp_def upper_special_def
        currency_url_def Let_def try_except_def seq_def send_def
        split: sum.splits prod.splits option.splits)

lemma weather_report_timeout:
  "\<exists>url. net_log (snd (weather_report E city l w))
     = net_log w @ [Http \<lparr>hc_method = u ''GET'', hc_url = url,
          hc_headers = None, hc_json = None, hc_timeout = Some 10\<rparr>]"
  by (simp add: weather_report_def seq_def send_def split: sum.splits prod.splits option.splits)

lemma geocode_loop_timeout:
  "\<exists>k. net_log (snd (geocode_loop E city attempt n loc w))
     = net_log w @ replicate k (Geocode city (Some 10))"
proof (induction n arbitrary: attempt loc w)
  case 0
  have "net_log (snd (geocode_loop E city attempt 0 loc w)) = net_log w @ replicate 0 (Geocode city (Some 10))"
    by simp
  then show ?case by blast
next
  case (Suc n)
  let ?w = "w\<lparr>net_log := net_log w @ [Geocode city (Some 10)]\<rparr>"
  have "net_log ?w = net_log w @ replicate 1 (Geocode city (Some 10))" by simp
  then have stop: "\<exists>k. net_log ?w = net_log w @ replicate k (Geocode city (Some 10))"
    by blast
  have step: "\<exists>k. net_log (snd (geocode_loop E city (Suc attempt) n loc' ?w))
      = net_log w @ replicate k (Geocode city (Some 10))" for loc'
  proof -
    from Suc.IH [of "Suc attempt" loc' ?w] obtain k where
      "net_log (snd (geocode_loop E city (Suc attempt) n loc' ?w))
         = net_log ?w @ replicate k (Geocode city (Some 10))" by blast
    then have "net_log (snd (geocode_loop E city (Suc attempt) n loc' ?w))
         = net_log w @ replicate (Suc k) (Geocode city (Some 10))" by simp
    then show ?thesis by blast
  qed
  show ?case
  proof (cases "geocode E city attempt")
    case (Inl e)
    show ?thesis
    proof (cases "attempt = max_retries - 1")
      case True
      then have "snd (geocode_loop E city attempt (Suc n) loc w) = ?w"
        using Inl by (simp add: Let_def)
      then show ?thesis using stop by simp
    next
      case False
      then have "geocode_loop E city attempt (Suc n) loc w
          = geocode_loop E city (Suc attempt) n loc ?w"
        using Inl by (simp add: Let_def)
      then show ?thesis using step [of loc] by simp
    qed
  next
    case (Inr r)
    show ?thesis
    proof (cases r)
      case None
      then have "geocode_loop E city attempt (Suc n) loc w
          = geocode_loop E city (Suc attempt) n None ?w"
        using Inr by (simp add: Let_def)
      then show ?thesis using step [of None] by simp
    next
      case (Some l)
      then have "snd (geocode_loop E city attempt (Suc n) loc w) = ?w"
        using Inr by (simp add: Let_def)
      then show ?thesis using stop by simp
    qed
  qed
qed

section \<open>The currency tool\<close>

text \<open>
  Claim C8 gives the spellings \<open>A/B\<close> and \<open>A to B\<close> the same base and target. The parser
  replaces \<open>to\<close> by a slash and then every blank by a slash, so \<open>USD to EUR\<close> becomes
  \<open>USD///EUR\<close> and its second part, the target, is empty. The replacement of \<open>TO\<close> also
  cuts a code that contains it, such as \<open>TOP\<close>.
\<close>

theorem C8_parse_currency_pair_spellings:
  "parse_currency_pair (u ''USD/EUR'') = Inr (u ''USD'', u ''EUR'')
   \<and> parse_currency_pair (u ''USD to EUR'') = Inr (u ''USD'', [])
   \<and> parse_currency_pair (u ''EUR'') = Inr (u ''USD'', u ''EUR'')
   \<and> parse_currency_pair (u ''USD EUR'') = Inr (u ''USD'', u ''EUR'')
   \<and> parse_currency_pair (u ''USD/TOP'') = Inr (u ''USD'', [])
   \<and> parse_currency_pair (u ''TOP'') = Inr ([], u ''P'')"
  by (simp add: parse_currency_pair_def startswith_def item_def and_then_def strip_def
        lstrip_def rstrip_def is_space_def upper_def upper_cp_def upper_special_def)

text \<open>What the replacements make of the input \<open>USD to EUR\<close>.\<close>

lemma currency_pair_to_parts:
  "split_on 47 (replace (u '' '') (u ''/'') (replace (u ''TO'') (u ''/'')
      (replace (u ''to'') (u ''/'') (u ''USD to EUR''))))
   = [u ''USD'', [], [], u ''EUR'']"
  by (simp add: startswith_def)

text \<open>
  With a provider that knows USD and EUR, the tool answers \<open>USD/EUR\<close> with the rate and
  \<open>USD to EUR\<close> with "currency '' not found", followed by the available currencies.
\<close>

lemma currency_tool_slash_spelling:
  "fst (get_currency_rate rates_env [Str (u ''USD/EUR'')] [] empty_world)
     = Inr (msg_rate (u ''USD'') (u ''EUR'') (u ''0.9000''))"
  by (simp add: get_currency_rate_def parse_currency_pair_def startswith_def item_def
        and_then_def strip_def lstrip_def rstrip_def is_space_def upper_def upper_cp_def
        upper_special_def currency_url_def Let_def try_except_def seq_def send_def rates_env_def
        sample_env_def)

lemma currency_tool_to_spelling:
  "fst (get_currency_rate rates_env [Str (u ''USD to EUR'')] [] empty_world)
     = Inr (msg_target_not_found [] (u ''EUR, USD''))"
  by (simp add: get_currency_rate_def parse_currency_pair_def startswith_def item_def
        and_then_def strip_def lstrip_def rstrip_def is_space_def upper_def upper_cp_def
        upper_special_def currency_url_def Let_def try_except_def seq_def send_def rates_env_def
        sample_env_def list_le_def list_less_def)

section \<open>The write-file tool\<close>





text \<open>
  When the operating system refuses to open \<open>out.txt\<close> (it is a directory, say), nothing
  is written and the tool returns the error text with the text of the exception.
\<close>

lemma write_file_impl_refused:
  assumes "path_and_content arg = (u ''out.txt'', c)"
    and "os_open_error E (u ''out.txt'') w = Some e"
  shows "write_file_impl E (Str arg) w = (Inr (msg_write_error (exn_text e)), w)"
  using assms
  by (simp add: write_file_impl_def write_file_argument_def dirname_def Let_def try_except_def
        seq_def write_text_def del: str_of_nat.simps)

text \<open>
  A content with a lone surrogate cannot be encoded: the file is left empty and the tool
  returns the error text.
\<close>

lemma write_file_impl_unencodable:
  "write_file_impl (sample_env []) (Str (u ''out.txt|'' @ [55296])) empty_world =
     (Inr (msg_write_error ([39] @ u ''utf-8'' @ [39] @ u '' codec can'' @ [39]
             @ u ''t encode character '' @ [39, 92] @ u ''ud800'' @ [39]
             @ u '' in position 0: surrogates not allowed'')),
      empty_world\<lparr>files := (files empty_world)(u ''out.txt'' \<mapsto> [])\<rparr>)"
  by (simp add: write_file_impl_def write_file_argument_def path_and_content_def startswith_def
        split_once_def strip_def lstrip_def rstrip_def is_space_def dirname_def Let_def
        try_except_def seq_def write_text_def sample_env_def empty_world_def utf8_encodable_def
        encode_error_def is_surrogate_def hex4_def hex_digit_def)





section \<open>Classification of dispatch failures\<close>

lemma process_returns: "\<exists>v. fst (process E user_input s) = Inr v"
  by (simp add: process_def try_except_def seq_def split: prod.splits sum.splits)

lemma process_failure:
  assumes "fst (executor_invoke E user_input (memory s)) = Inl e"
  shows "fst (process E user_input s) = Inr (Str (error_message (exn_text e)))"
proof -
  obtain mem where "executor_invoke E user_input (memory s) = (Inl e, mem)"
    using assms by (cases "executor_invoke E user_input (memory s)") auto
  then show ?thesis
    by (simp add: process_def try_except_def seq_def invoke_executor_def)
qed

lemma process_raised:
  assumes "fst (executor_invoke E user_input (memory s)) = Inl (Exn c t)"
  shows "fst (process E user_input s) = Inr (Str (error_message t))"
  using process_failure [OF assms] by simp

lemma lower_marker:
  "lower (u ''unsupported_country_region_territory'') = u ''unsupported_country_region_territory''
   \<and> lower (u ''invalid_api_key'') = u ''invalid_api_key''
   \<and> lower (u ''rate_limit'') = u ''rate_limit''"
  by (simp add: lower_def lower_cp_def lower_special_def)

lemma messages_distinct: "distinct [msg_region, msg_auth, msg_rate_limit, msg_generic t]"
  by (simp add: msg_region_def msg_auth_def msg_rate_limit_def msg_generic_def)

lemma messages_indicator:
  "startswith msg_region error_indicator \<and> startswith msg_auth error_indicator
   \<and> startswith msg_rate_limit error_indicator"
  by (simp add: msg_region_def msg_auth_def msg_rate_limit_def error_indicator_def startswith_def)

lemma msg_generic_shape:
  "msg_generic t = error_indicator
        @ [32, 1087, 1088, 1080, 32, 1086, 1073, 1088, 1072, 1073, 1086, 1090, 1082, 1077, 32, 1079, 1072, 1087, 1088, 1086, 1089, 1072, 58, 32]
        @ t"
  by (simp add: msg_generic_def error_indicator_def)

lemma msg_region_remedy: "contains msg_region (u ''VPN'') \<and> contains msg_region (u ''HTTP_PROXY'')"
  by (simp add: msg_region_def startswith_def)

lemma msg_auth_remedy: "contains msg_auth (u ''OPENAI_API_KEY'') \<and> contains msg_auth (u ''.env'')"
  by (simp add: msg_auth_def startswith_def)

text \<open>The rate-limit message says to wait (the imperative of "to wait", in Russian).\<close>

lemma msg_rate_limit_remedy:
  "contains msg_rate_limit [1055, 1086, 1076, 1086, 1078, 1076, 1080, 1090, 1077]"
  by (simp add: msg_rate_limit_def startswith_def)

text \<open>
  Against claim C1 as stated (each class of error text gets its own message). The classes
  are tested in order, so a text with the signal of two classes gets the message of the
  first: an error text of the credentials class, with \<open>401\<close>, in which the masked key
  happens to show \<open>403\<close>, gets the region message. And the word markers are read without
  regard to letter case: a text with none of the six markers of the claim,
  \<open>RATE_LIMIT reached\<close>, gets the rate-limit message, not the generic one.
\<close>

theorem C1_order_and_case_counterexample:
  "contains (u ''Error code: 401 - Incorrect API key provided: sk-***403A'') (u ''401'')
   \<and> fst (process (sample_env (u ''Error code: 401 - Incorrect API key provided: sk-***403A''))
          (u ''hi'') \<lparr>memory = [], memory_file = NoFile\<rparr>) = Inr (Str msg_region)
   \<and> msg_region \<noteq> msg_auth
   \<and> \<not> contains (u ''RATE_LIMIT reached'') (u ''403'')
   \<and> \<not> contains (u ''RATE_LIMIT reached'') (u ''unsupported_country_region_territory'')
   \<and> \<not> contains (u ''RATE_LIMIT reached'') (u ''401'')
   \<and> \<not> contains (u ''RATE_LIMIT reached'') (u ''invalid_api_key'')
   \<and> \<not> contains (u ''RATE_LIMIT reached'') (u ''429'')
   \<and> \<not> contains (u ''RATE_LIMIT reached'') (u ''rate_limit'')
   \<and> fst (process (sample_env (u ''RATE_LIMIT reached'')) (u ''hi'') \<lparr>memory = [], memory_file = NoFile\<rparr>)
       = Inr (Str msg_rate_limit)
   \<and> msg_rate_limit \<noteq> msg_generic (u ''RATE_LIMIT reached'')"
proof -
  let ?s = "\<lparr>memory = [], memory_file = NoFile\<rparr>"
  have raised: "fst (executor_invoke (sample_env t) (u ''hi'') (memory ?s)) = Inl (Exn OtherError t)"
    for t by (simp add: sample_env_def)
  have first: "error_message (u ''Error code: 401 - Incorrect API key provided: sk-***403A'') = msg_region"
    by (simp add: error_message_def startswith_def)
  have second: "error_message (u ''RATE_LIMIT reached'') = msg_rate_limit"
    by (simp add: error_message_def startswith_def lower_def lower_cp_def lower_special_def)
  have texts: "contains (u ''Error code: 401 - Incorrect API key provided: sk-***403A'') (u ''401'')
     \<and> \<not> contains (u ''RATE_LIMIT reached'') (u ''403'')
     \<and> \<not> contains (u ''RATE_LIMIT reached'') (u ''unsupported_country_region_territory'')
     \<and> \<not> contains (u ''RATE_LIMIT reached'') (u ''401'')
     \<and> \<not> contains (u ''RATE_LIMIT reached'') (u ''invalid_api_key'')
     \<and> \<not> contains (u ''RATE_LIMIT reached'') (u ''429'')
     \<and> \<not> contains (u ''RATE_LIMIT reached'') (u ''rate_limit'')"
    by (simp add: startswith_def)
  have differ: "msg_region \<noteq> msg_auth \<and> msg_rate_limit \<noteq> msg_generic (u ''RATE_LIMIT reached'')"
    by (simp add: msg_region_def msg_auth_def msg_rate_limit_def msg_generic_def)
  from process_raised [OF raised [of "u ''Error code: 401 - Incorrect API key provided: sk-***403A''"]] first
  have r1: "fst (process (sample_env (u ''Error code: 401 - Incorrect API key provided: sk-***403A'')) (u ''hi'') ?s) = Inr (Str msg_region)"
    by (simp only:)
  from process_raised [OF raised [of "u ''RATE_LIMIT reached''"]] second
  have r2: "fst (process (sample_env (u ''RATE_LIMIT reached'')) (u ''hi'') ?s) = Inr (Str msg_rate_limit)"
    by (simp only:)
  from texts differ r1 r2 show ?thesis by blast
qed

text \<open>
  Claim C1, as the code has it. \<open>process\<close> returns a value for every outcome of the
  dispatch step and never raises. When the dispatch step raises an exception with the text
  \<open>t\<close>, \<open>process\<close> returns a text chosen by tests on \<open>t\<close> made in this order, a word
  marker being looked for in the lower-cased text, so in any letter case:
  the region message when \<open>t\<close> contains \<open>403\<close> or
  \<open>unsupported_country_region_territory\<close>; otherwise the credentials message when it
  contains \<open>401\<close> or \<open>invalid_api_key\<close>; otherwise the rate-limit message when it
  contains \<open>429\<close> or \<open>rate_limit\<close>; otherwise the generic message. A word marker
  spelled as in the claim is one of its spellings in any case. The four messages are
  pairwise distinct and begin with the error indicator; the generic message is the
  indicator, the words for ``while processing the request:'' and the text \<open>t\<close>; the
  region message names VPN and the proxy variables, the credentials message names
  OPENAI_API_KEY and the .env file, and the rate-limit message says to wait.
\<close>

theorem C1_process_classifies_in_order:
  "(\<exists>v. fst (process E user_input s) = Inr v)
   \<and> (fst (executor_invoke E user_input (memory s)) = Inl (Exn c t)
        \<and> (contains t (u ''403'') \<or> contains (lower t) (u ''unsupported_country_region_territory''))
        \<longrightarrow> fst (process E user_input s) = Inr (Str msg_region))
   \<and> (fst (executor_invoke E user_input (memory s)) = Inl (Exn c t)
        \<and> \<not> contains t (u ''403'') \<and> \<not> contains (lower t) (u ''unsupported_country_region_territory'')
        \<and> (contains t (u ''401'') \<or> contains (lower t) (u ''invalid_api_key''))
        \<longrightarrow> fst (process E user_input s) = Inr (Str msg_auth))
   \<and> (fst (executor_invoke E user_input (memory s)) = Inl (Exn c t)
        \<and> \<not> contains t (u ''403'') \<and> \<not> contains (lower t) (u ''unsupported_country_region_territory'')
        \<and> \<not> contains t (u ''401'') \<and> \<not> contains (lower t) (u ''invalid_api_key'')
        \<and> (contains t (u ''429'') \<or> contains (lower t) (u ''rate_limit''))
        \<longrightarrow> fst (process E user_input s) = Inr (Str msg_rate_limit))
   \<and> (fst (executor_invoke E user_input (memory s)) = Inl (Exn c t)
        \<and> \<not> contains t (u ''403'') \<and> \<not> contains (lower t) (u ''unsupported_country_region_territory'')
        \<and> \<not> contains t (u ''401'') \<and> \<not> contains (lower t) (u ''invalid_api_key'')
        \<and> \<not> contains t (u ''429'') \<and> \<not> contains (lower t) (u ''rate_limit'')
        \<longrightarrow> fst (process E user_input s) = Inr (Str (msg_generic t)))
   \<and> (contains t (u ''unsupported_country_region_territory'') \<longrightarrow> contains (lower t) (u ''unsupported_country_region_territory''))
   \<and> (contains t (u ''invalid_api_key'') \<longrightarrow> contains (lower t) (u ''invalid_api_key''))
   \<and> (contains t (u ''rate_limit'') \<longrightarrow> contains (lower t) (u ''rate_limit''))
   \<and> distinct [msg_region, msg_auth, msg_rate_limit, msg_generic t]
   \<and> startswith msg_region error_indicator \<and> startswith msg_auth error_indicator
   \<and> startswith msg_rate_limit error_indicator
   \<and> msg_generic t = error_indicator
        @ [32, 1087, 1088, 1080, 32, 1086, 1073, 1088, 1072, 1073, 1086, 1090, 1082, 1077, 32, 1079, 1072, 1087, 1088, 1086, 1089, 1072, 58, 32]
        @ t
   \<and> contains msg_region (u ''VPN'') \<and> contains msg_region (u ''HTTP_PROXY'')
   \<and> contains msg_auth (u ''OPENAI_API_KEY'') \<and> contains msg_auth (u ''.env'')
   \<and> contains msg_rate_limit [1055, 1086, 1076, 1086, 1078, 1076, 1080, 1090, 1077]"
proof -
  have region: "fst (process E user_input s) = Inr (Str msg_region)"
    if "fst (executor_invoke E user_input (memory s)) = Inl (Exn c t)"
      and "contains t (u ''403'') \<or> contains (lower t) (u ''unsupported_country_region_territory'')"
  proof -
    from that(2) have "error_message t = msg_region"
      by (simp add: error_message_def)
    with process_raised [OF that(1)] show ?thesis by (simp only:)
  qed
  have auth: "fst (process E user_input s) = Inr (Str msg_auth)"
    if "fst (executor_invoke E user_input (memory s)) = Inl (Exn c t)"
      and "\<not> contains t (u ''403'')" and "\<not> contains (lower t) (u ''unsupported_country_region_territory'')"
      and "contains t (u ''401'') \<or> contains (lower t) (u ''invalid_api_key'')"
  proof -
    from that(2-4) have "error_message t = msg_auth"
      by (simp add: error_message_def)
    with process_raised [OF that(1)] show ?thesis by (simp only:)
  qed
  have rate: "fst (process E user_input s) = Inr (Str msg_rate_limit)"
    if "fst (executor_invoke E user_input (memory s)) = Inl (Exn c t)"
      and "\<not> contains t (u ''403'')" and "\<not> contains (lower t) (u ''unsupported_country_region_territory'')"
      and "\<not> contains t (u ''401'')" and "\<not> contains (lower t) (u ''invalid_api_key'')"
      and "contains t (u ''429'') \<or> contains (lower t) (u ''rate_limit'')"
  proof -
    from that(2-6) have "error_message t = msg_rate_limit"
      by (simp add: error_message_def)
    with process_raised [OF that(1)] show ?thesis by (simp only:)
  qed
  have generic: "fst (process E user_input s) = Inr (Str (msg_generic t))"
    if "fst (executor_invoke E user_input (memory s)) = Inl (Exn c t)"
      and "\<not> contains t (u ''403'')" and "\<not> contains (lower t) (u ''unsupported_country_region_territory'')"
      and "\<not> contains t (u ''401'')" and "\<not> contains (lower t) (u ''invalid_api_key'')"
      and "\<not> contains t (u ''429'')" and "\<not> contains (lower t) (u ''rate_limit'')"
  proof -
    from that(2-7) have "error_message t = msg_generic t"
      by (simp add: error_message_def)
    with process_raised [OF that(1)] show ?thesis by (simp only:)
  qed
  have literal: "(contains t (u ''unsupported_country_region_territory'') \<longrightarrow> contains (lower t) (u ''unsupported_country_region_territory''))
     \<and> (contains t (u ''invalid_api_key'') \<longrightarrow> contains (lower t) (u ''invalid_api_key''))
     \<and> (contains t (u ''rate_limit'') \<longrightarrow> contains (lower t) (u ''rate_limit''))"
    using contains_lower [of t "u ''unsupported_country_region_territory''"]
      contains_lower [of t "u ''invalid_api_key''"] contains_lower [of t "u ''rate_limit''"]
      lower_marker
    by (intro conjI impI) (simp_all only:)
  show ?thesis
    apply (intro conjI)
                      apply (rule process_returns)
                     apply (intro impI, elim conjE, erule (1) region)
                    apply (intro impI, elim conjE, erule (3) auth)
                   apply (intro impI, elim conjE, erule (5) rate)
                  apply (intro impI, elim conjE, erule (6) generic)
                 apply (rule literal [THEN conjunct1])
                apply (rule literal [THEN conjunct2, THEN conjunct1])
               apply (rule literal [THEN conjunct2, THEN conjunct2])
              apply (rule messages_distinct)
             apply (rule messages_indicator [THEN conjunct1])
            apply (rule messages_indicator [THEN conjunct2, THEN conjunct1])
           apply (rule messages_indicator [THEN conjunct2, THEN conjunct2])
          apply (rule msg_generic_shape)
         apply (rule msg_region_remedy [THEN conjunct1])
        apply (rule msg_region_remedy [THEN conjunct2])
       apply (rule msg_auth_remedy [THEN conjunct1])
      apply (rule msg_auth_remedy [THEN conjunct2])
    apply (rule msg_rate_limit_remedy)
    done
qed

text \<open>
  The four signals of the specification's test, raised by the executor of \<open>sample_env\<close>.
\<close>

theorem C1_process_witness:
  "fst (process (sample_env (u ''Error code: 403 - unsupported_country_region_territory''))
          (u ''hi'') \<lparr>memory = [], memory_file = NoFile\<rparr>) = Inr (Str msg_region)
   \<and> fst (process (sample_env (u ''Error code: 401 - invalid_api_key''))
          (u ''hi'') \<lparr>memory = [], memory_file = NoFile\<rparr>) = Inr (Str msg_auth)
   \<and> fst (process (sample_env (u ''Error code: 429 - rate_limit_exceeded''))
          (u ''hi'') \<lparr>memory = [], memory_file = NoFile\<rparr>) = Inr (Str msg_rate_limit)
   \<and> fst (process (sample_env (u ''Connection error.''))
          (u ''hi'') \<lparr>memory = [], memory_file = NoFile\<rparr>)
       = Inr (Str (msg_generic (u ''Connection error.'')))"
proof -
  let ?s = "\<lparr>memory = [], memory_file = NoFile\<rparr>"
  have raised: "fst (executor_invoke (sample_env t) (u ''hi'') (memory ?s)) = Inl (Exn OtherError t)"
    for t by (simp add: sample_env_def)
  have c403: "contains (u ''Error code: 403 - unsupported_country_region_territory'') (u ''403'')"
    by (simp add: startswith_def)
  have c401: "\<not> contains (u ''Error code: 401 - invalid_api_key'') (u ''403'')
      \<and> \<not> contains (lower (u ''Error code: 401 - invalid_api_key'')) (u ''unsupported_country_region_territory'')
      \<and> contains (u ''Error code: 401 - invalid_api_key'') (u ''401'')"
    by (simp add: startswith_def lower_def lower_cp_def lower_special_def)
  have c429: "\<not> contains (u ''Error code: 429 - rate_limit_exceeded'') (u ''403'')
      \<and> \<not> contains (lower (u ''Error code: 429 - rate_limit_exceeded'')) (u ''unsupported_country_region_territory'')
      \<and> \<not> contains (u ''Error code: 429 - rate_limit_exceeded'') (u ''401'')
      \<and> \<not> contains (lower (u ''Error code: 429 - rate_limit_exceeded'')) (u ''invalid_api_key'')
      \<and> contains (u ''Error code: 429 - rate_limit_exceeded'') (u ''429'')"
    by (simp add: startswith_def lower_def lower_cp_def lower_special_def)
  have none: "\<not> contains (u ''Connection error.'') (u ''403'') \<and> \<not> contains (lower (u ''Connection error.'')) (u ''unsupported_country_region_territory'')
        \<and> \<not> contains (u ''Connection error.'') (u ''401'') \<and> \<not> contains (lower (u ''Connection error.'')) (u ''invalid_api_key'')
        \<and> \<not> contains (u ''Connection error.'') (u ''429'') \<and> \<not> contains (lower (u ''Connection error.'')) (u ''rate_limit'')"
    by (simp add: startswith_def lower_def lower_cp_def lower_special_def)
  from C1_process_classifies_in_order
        [of "sample_env (u ''Error code: 403 - unsupported_country_region_territory'')" "u ''hi''" ?s OtherError
            "u ''Error code: 403 - unsupported_country_region_territory''",
         THEN conjunct2, THEN conjunct1]
      raised c403
  have r1: "fst (process (sample_env (u ''Error code: 403 - unsupported_country_region_territory''))
          (u ''hi'') ?s) = Inr (Str msg_region)"
    by (simp del: contains.simps)
  from C1_process_classifies_in_order
        [of "sample_env (u ''Error code: 401 - invalid_api_key'')" "u ''hi''" ?s OtherError
            "u ''Error code: 401 - invalid_api_key''",
         THEN conjunct2, THEN conjunct2, THEN conjunct1]
      raised c401
  have r2: "fst (process (sample_env (u ''Error code: 401 - invalid_api_key'')) (u ''hi'') ?s)
      = Inr (Str msg_auth)"
    by (simp del: contains.simps)
  from C1_process_classifies_in_order
        [of "sample_env (u ''Error code: 429 - rate_limit_exceeded'')" "u ''hi''" ?s OtherError
            "u ''Error code: 429 - rate_limit_exceeded''",
         THEN conjunct2, THEN conjunct2, THEN conjunct2, THEN conjunct1]
      raised c429
  have r3: "fst (process (sample_env (u ''Error code: 429 - rate_limit_exceeded'')) (u ''hi'') ?s)
      = Inr (Str msg_rate_limit)"
    by (simp del: contains.simps)
  from C1_process_classifies_in_order
        [of "sample_env (u ''Connection error.'')" "u ''hi''" ?s OtherError "u ''Connection error.''",
         THEN conjunct2, THEN conjunct2, THEN conjunct2, THEN conjunct2, THEN conjunct1]
      raised none
  have r4: "fst (process (sample_env (u ''Connection error.'')) (u ''hi'') ?s)
      = Inr (Str (msg_generic (u ''Connection error.'')))"
    by (simp del: contains.simps)
  from r1 r2 r3 r4 show ?thesis by simp
qed

section \<open>Conversation memory\<close>

text \<open>
  The loop on a well-formed entry: its messages are appended and the loop goes on with the
  next entry.
\<close>

lemma load_entry_step:
  assumes "well_formed_entry E entry"
  shows "load_messages E (entry # rest) s
         = load_messages E rest (s\<lparr>memory := memory s @ entry_messages E entry\<rparr>)"
proof (cases entry)
  case (Dict d)
  with assms obtain t where t: "map_of d (u ''type'') = Some t"
    by (auto split: option.splits)
  show ?thesis
  proof (cases "t = Str (u ''human'') \<or> t = Str (u ''ai'')")
    case True
    with assms Dict t obtain c stored where
      "map_of d (u ''content'') = Some c" and "stored_content E c = Inr stored"
      by (auto split: option.splits sum.splits)
    then show ?thesis using Dict t True
      by (auto simp: add_message_def seq_def)
  next
    case False
    then show ?thesis using Dict t
      by (auto split: option.splits sum.splits)
  qed
qed (use assms in simp_all)

lemma load_entries_step:
  assumes "list_all (well_formed_entry E) good"
  shows "load_messages E (good @ rest) s
         = load_messages E rest (s\<lparr>memory := memory s @ concat (map (entry_messages E) good)\<rparr>)"
  using assms
proof (induction good arbitrary: s)
  case Nil
  then show ?case by simp
next
  case (Cons entry good)
  then show ?case by (simp add: load_entry_step del: load_messages.simps)
qed

text \<open>The loop raises at a malformed entry, in the state it has reached.\<close>

lemma load_malformed:
  assumes "\<not> well_formed_entry E bad"
  shows "\<exists>e. load_messages E (bad # rest) s = (Inl e, s)"
proof (cases bad)
  case (Dict d)
  show ?thesis
  proof (cases "map_of d (u ''type'')")
    case None
    then show ?thesis using Dict by simp
  next
    case (Some t)
    with assms Dict have t: "t = Str (u ''human'') \<or> t = Str (u ''ai'')"
      by (auto split: if_splits)
    show ?thesis
    proof (cases "map_of d (u ''content'')")
      case None
      then show ?thesis using Dict Some t by auto
    next
      case c: (Some v)
      with assms Dict Some t obtain e where "stored_content E v = Inl e"
        by (auto split: sum.splits)
      then have "add_message E HumanMessage v s = (Inl e, s)"
        and "add_message E AIMessage v s = (Inl e, s)"
        by (simp_all add: add_message_def)
      then show ?thesis using Dict Some c t
        by (auto simp: seq_def)
    qed
  qed
qed simp_all

lemma load_memory_returns: "fst (load_memory E s) = Inr ()"
  by (simp add: load_memory_def try_except_def split: prod.splits sum.splits)

lemma load_memory_no_file: "memory_file s = NoFile \<Longrightarrow> load_memory E s = (Inr (), s)"
  by (simp add: load_memory_def)

lemma load_memory_unparseable: "memory_file s = Unparseable \<Longrightarrow> load_memory E s = (Inr (), s)"
  by (simp add: load_memory_def try_except_def seq_def read_memory_file_def)

lemma load_memory_not_object:
  "memory_file s = Document d \<Longrightarrow> \<not> is_dict d \<Longrightarrow> load_memory E s = (Inr (), s)"
  by (cases d) (simp_all add: load_memory_def try_except_def seq_def read_memory_file_def and_then_def)

lemma load_memory_no_messages:
  "memory_file s = Document (Dict d) \<Longrightarrow> map_of d (u ''messages'') = None
   \<Longrightarrow> load_memory E s = (Inr (), s)"
  by (simp add: load_memory_def try_except_def seq_def read_memory_file_def and_then_def)

text \<open>
  Loading a document whose message list is \<open>entries\<close>: the loop runs on the entries, and
  what it raises is dropped by the handler, in the state the loop has reached.
\<close>

lemma load_memory_document:
  assumes "memory_file s = Document (Dict d)" and "map_of d (u ''messages'') = Some (List entries)"
  shows "snd (load_memory E s) = snd (load_messages E entries s)"
  using assms
  by (simp add: load_memory_def try_except_def seq_def read_memory_file_def and_then_def
        split: prod.splits sum.splits)

text \<open>
  A value under \<open>messages\<close> that is not a list: \<open>len\<close> raises for a value without
  length; the characters of a text and the keys of an object are texts, at the first of
  which the subscript \<open>msg['type']\<close> raises. Nothing is loaded.
\<close>

lemma load_memory_not_list:
  assumes "memory_file s = Document (Dict d)" and "map_of d (u ''messages'') = Some v"
    and "\<not> is_list v"
  shows "snd (load_memory E s) = s"
proof -
  have texts: "snd (try_except (load_messages E (map (\<lambda>x. Str (f x)) xs)) (\<lambda>e. ret ()) s) = s"
    for f :: "'a \<Rightarrow> ustr" and xs
  proof (cases xs)
    case Nil
    then show ?thesis by (simp add: try_except_def)
  next
    case (Cons x rest)
    have "\<not> well_formed_entry E (Str (f x))" by simp
    from load_malformed [OF this, of "map (\<lambda>x. Str (f x)) rest" s] obtain e where
      "load_messages E (Str (f x) # map (\<lambda>x. Str (f x)) rest) s = (Inl e, s)" by blast
    then show ?thesis using Cons by (simp add: try_except_def)
  qed
  show ?thesis
  proof (cases v)
    case (Str t)
    show ?thesis using assms(1,2) Str texts [of "\<lambda>c. [c]" t]
      by (simp add: load_memory_def try_except_def seq_def read_memory_file_def and_then_def
            del: load_messages.simps)
  next
    case (Dict keyed)
    show ?thesis using assms(1,2) Dict texts [of fst keyed]
      by (simp add: load_memory_def try_except_def seq_def read_memory_file_def and_then_def
            del: load_messages.simps)
  next
    case (List xs)
    then show ?thesis using assms(3) by simp
  qed (use assms(1,2) in \<open>simp_all add: load_memory_def try_except_def seq_def
         read_memory_file_def and_then_def\<close>)
qed

lemma load_memory_good:
  assumes "memory_file s = Document (Dict d)" and "map_of d (u ''messages'') = Some (List good)"
    and "list_all (well_formed_entry E) good"
  shows "snd (load_memory E s) = s\<lparr>memory := memory s @ concat (map (entry_messages E) good)\<rparr>"
  using load_memory_document [OF assms(1,2), of E] load_entries_step [OF assms(3), of "[]" s]
  by simp

lemma load_memory_partial:
  assumes "memory_file s = Document (Dict d)"
    and "map_of d (u ''messages'') = Some (List (good @ bad # rest))"
    and "list_all (well_formed_entry E) good" and "\<not> well_formed_entry E bad"
  shows "snd (load_memory E s) = s\<lparr>memory := memory s @ concat (map (entry_messages E) good)\<rparr>"
proof -
  let ?s = "s\<lparr>memory := memory s @ concat (map (entry_messages E) good)\<rparr>"
  from load_malformed [OF assms(4), of rest ?s] obtain e where
    "load_messages E (bad # rest) ?s = (Inl e, ?s)" by blast
  then have "snd (load_messages E (good @ bad # rest) s) = ?s"
    using load_entries_step [OF assms(3), of "bad # rest" s] by simp
  then show ?thesis using load_memory_document [OF assms(1,2), of E] by simp
qed







lemma persisted_refused:
  assumes "memory_open_error E = Some e"
  shows "persisted E ms mfile = mfile"
  using assms
  by (simp add: persisted_def save_memory_def try_except_def seq_def Let_def open_memory_file_def)




text \<open>
  A message of another class is written as an ai message, so the restriction of the claim
  to human/ai messages is needed.
\<close>

lemma system_message_not_round_trip:
  "memory (snd (startup (sample_env []) (persisted (sample_env [])
      [\<lparr>msg_class = SystemMessage, content = Str (u ''hi'')\<rparr>] NoFile)))
   = [\<lparr>msg_class = AIMessage, content = Str (u ''hi'')\<rparr>]"
  by (simp add: startup_def persisted_def save_memory_def Let_def message_entry_def load_memory_def
        try_except_def seq_def read_memory_file_def and_then_def add_message_def stored_content_def
        open_memory_file_def json_dump_def generate_summary_def sample_env_def utf8_encodable_def
        sample_repr_def)

text \<open>
  A summary that cannot be encoded stops the write as well, after the messages have been
  written; and when the file cannot be opened, the file of an earlier memory stays, from
  which that earlier memory is read.
\<close>

lemma summary_not_encodable:
  "persisted ((sample_env [])\<lparr>summary_llm := (\<lambda>prompt. Inr (Str [55296]))\<rparr>)
     [\<lparr>msg_class = HumanMessage, content = Str (u ''hi'')\<rparr>] NoFile = Unparseable"
  by (simp add: persisted_def save_memory_def try_except_def seq_def Let_def open_memory_file_def
        json_dump_def generate_summary_def message_entry_def sample_env_def utf8_encodable_def)

lemma open_refused_keeps_file:
  assumes "memory_open_error E = Some e"
  shows "memory (snd (startup E (persisted E ms NoFile))) = []"
  by (simp add: persisted_refused [OF assms] startup_def load_memory_no_file)

text \<open>
  Against claim C6 as stated (a malformed file yields an empty memory, and no partly
  loaded message set remains): the second entry of \<open>broken_document\<close> has no content; the
  first entry has been loaded when the loop raises, and it stays in the memory.
\<close>

theorem C6_partial_load_counterexample:
  "memory (snd (startup (sample_env []) (Document broken_document)))
     = [\<lparr>msg_class = HumanMessage, content = Str (u ''hi'')\<rparr>]
   \<and> memory (snd (startup (sample_env []) (Document broken_document))) \<noteq> []"
  by (simp add: startup_def broken_document_def load_memory_def try_except_def seq_def
        read_memory_file_def and_then_def add_message_def stored_content_def sample_env_def
        sample_repr_def)

text \<open>
  What is well formed and what is malformed, entry by entry: a value that is no object, an
  object without a \<open>type\<close>, and a \<open>human\<close> or \<open>ai\<close> object without \<open>content\<close> are
  malformed; a \<open>human\<close> or \<open>ai\<close> object whose content is a text, or a list of texts and
  objects, is well formed and stands for the message of that class with that content,
  whatever other keys it has; an object of another type is well formed and stands for no
  message.
\<close>

lemma malformed_entries:
  "(\<not> is_dict v \<longrightarrow> \<not> well_formed_entry E v)
   \<and> (map_of e (u ''type'') = None \<longrightarrow> \<not> well_formed_entry E (Dict e))
   \<and> ((map_of e (u ''type'') = Some (Str (u ''human'')) \<or> map_of e (u ''type'') = Some (Str (u ''ai'')))
        \<and> map_of e (u ''content'') = None \<longrightarrow> \<not> well_formed_entry E (Dict e))"
  by (cases v) auto

lemma well_formed_entries:
  "(map_of e (u ''type'') = Some (Str (u ''human'')) \<and> map_of e (u ''content'') = Some c
        \<and> plain_content c
      \<longrightarrow> well_formed_entry E (Dict e)
          \<and> entry_messages E (Dict e) = [\<lparr>msg_class = HumanMessage, content = c\<rparr>])
   \<and> (map_of e (u ''type'') = Some (Str (u ''ai'')) \<and> map_of e (u ''content'') = Some c
        \<and> plain_content c
      \<longrightarrow> well_formed_entry E (Dict e)
          \<and> entry_messages E (Dict e) = [\<lparr>msg_class = AIMessage, content = c\<rparr>])
   \<and> (map_of e (u ''type'') = Some x \<and> x \<noteq> Str (u ''human'') \<and> x \<noteq> Str (u ''ai'')
      \<longrightarrow> well_formed_entry E (Dict e) \<and> entry_messages E (Dict e) = [])
   \<and> plain_content (Str t)
   \<and> plain_content (List [Str t])"
  by (auto simp: stored_content_def split: option.splits sum.splits)

text \<open>
  Claim C6, as the code has it. \<open>_load_memory\<close> never raises. It leaves the memory as it
  was (empty, at startup) when the file is absent, when no document can be read from it,
  when the document is not an object, and when the object has no message list or has
  under \<open>messages\<close> a value that is not a list. When the
  message list has a malformed entry, the messages of the entries before the first
  malformed one stay loaded (entries of another type are skipped, keys other than the
  type and the content are ignored) and the entries from the malformed one on are not
  loaded: the messages read so far are kept, not discarded. When every entry is well
  formed, all their messages are loaded.
\<close>

theorem C6_load_memory_fail_safe:
  "fst (load_memory E s) = Inr ()
   \<and> (memory_file s = NoFile \<longrightarrow> snd (load_memory E s) = s)
   \<and> (memory_file s = Unparseable \<longrightarrow> snd (load_memory E s) = s)
   \<and> (memory_file s = Document d \<and> \<not> is_dict d \<longrightarrow> snd (load_memory E s) = s)
   \<and> (memory_file s = Document (Dict items) \<and> map_of items (u ''messages'') = None
        \<longrightarrow> snd (load_memory E s) = s)
   \<and> (memory_file s = Document (Dict items) \<and> map_of items (u ''messages'') = Some listed
        \<and> \<not> is_list listed \<longrightarrow> snd (load_memory E s) = s)
   \<and> (memory_file s = Document (Dict items)
        \<and> map_of items (u ''messages'') = Some (List (good @ bad # rest))
        \<and> list_all (well_formed_entry E) good \<and> \<not> well_formed_entry E bad
        \<longrightarrow> snd (load_memory E s) = s\<lparr>memory := memory s @ concat (map (entry_messages E) good)\<rparr>)
   \<and> (memory_file s = Document (Dict items)
        \<and> map_of items (u ''messages'') = Some (List good)
        \<and> list_all (well_formed_entry E) good
        \<longrightarrow> snd (load_memory E s) = s\<lparr>memory := memory s @ concat (map (entry_messages E) good)\<rparr>)
   \<and> (\<not> is_dict v \<longrightarrow> \<not> well_formed_entry E v)
   \<and> (map_of e (u ''type'') = None \<longrightarrow> \<not> well_formed_entry E (Dict e))
   \<and> ((map_of e (u ''type'') = Some (Str (u ''human'')) \<or> map_of e (u ''type'') = Some (Str (u ''ai'')))
        \<and> map_of e (u ''content'') = None \<longrightarrow> \<not> well_formed_entry E (Dict e))
   \<and> (map_of e (u ''type'') = Some (Str (u ''human'')) \<and> map_of e (u ''content'') = Some c
        \<and> plain_content c
      \<longrightarrow> well_formed_entry E (Dict e)
          \<and> entry_messages E (Dict e) = [\<lparr>msg_class = HumanMessage, content = c\<rparr>])
   \<and> (map_of e (u ''type'') = Some (Str (u ''ai'')) \<and> map_of e (u ''content'') = Some c
        \<and> plain_content c
      \<longrightarrow> well_formed_entry E (Dict e)
          \<and> entry_messages E (Dict e) = [\<lparr>msg_class = AIMessage, content = c\<rparr>])
   \<and> (map_of e (u ''type'') = Some x \<and> x \<noteq> Str (u ''human'') \<and> x \<noteq> Str (u ''ai'')
      \<longrightarrow> well_formed_entry E (Dict e) \<and> entry_messages E (Dict e) = [])
   \<and> plain_content (Str t)
   \<and> plain_content (List [Str t])"
proof -
  have absent: "memory_file s = NoFile \<longrightarrow> snd (load_memory E s) = s"
    by (simp add: load_memory_no_file)
  have unparseable: "memory_file s = Unparseable \<longrightarrow> snd (load_memory E s) = s"
    by (simp add: load_memory_unparseable)
  have not_object: "memory_file s = Document d \<and> \<not> is_dict d \<longrightarrow> snd (load_memory E s) = s"
    by (simp add: load_memory_not_object)
  have no_list: "memory_file s = Document (Dict items) \<and> map_of items (u ''messages'') = None
        \<longrightarrow> snd (load_memory E s) = s"
    by (simp add: load_memory_no_messages)
  have not_list: "memory_file s = Document (Dict items) \<and> map_of items (u ''messages'') = Some listed
        \<and> \<not> is_list listed \<longrightarrow> snd (load_memory E s) = s"
    using load_memory_not_list [of s items listed E] by blast
  have partial: "memory_file s = Document (Dict items)
        \<and> map_of items (u ''messages'') = Some (List (good @ bad # rest))
        \<and> list_all (well_formed_entry E) good \<and> \<not> well_formed_entry E bad
        \<longrightarrow> snd (load_memory E s) = s\<lparr>memory := memory s @ concat (map (entry_messages E) good)\<rparr>"
    using load_memory_partial [of s items good bad rest E] by blast
  have whole: "memory_file s = Document (Dict items)
        \<and> map_of items (u ''messages'') = Some (List good)
        \<and> list_all (well_formed_entry E) good
        \<longrightarrow> snd (load_memory E s) = s\<lparr>memory := memory s @ concat (map (entry_messages E) good)\<rparr>"
    using load_memory_good [of s items good E] by blast
  from load_memory_returns [of E s] absent unparseable not_object no_list not_list partial whole
    malformed_entries [of v E e] well_formed_entries [of e c E x t]
  show ?thesis by blast
qed

theorem C6_load_memory_witness:
  "snd (load_memory (sample_env []) \<lparr>memory = [], memory_file = NoFile\<rparr>)
     = \<lparr>memory = [], memory_file = NoFile\<rparr>
   \<and> snd (load_memory (sample_env []) \<lparr>memory = [], memory_file = Unparseable\<rparr>)
     = \<lparr>memory = [], memory_file = Unparseable\<rparr>
   \<and> snd (load_memory (sample_env []) \<lparr>memory = [], memory_file = Document (List [])\<rparr>)
     = \<lparr>memory = [], memory_file = Document (List [])\<rparr>
   \<and> memory (snd (load_memory (sample_env []) \<lparr>memory = [], memory_file = Document broken_document\<rparr>))
     = [\<lparr>msg_class = HumanMessage, content = Str (u ''hi'')\<rparr>]
   \<and> memory (snd (load_memory (sample_env []) \<lparr>memory = [], memory_file = Document mixed_document\<rparr>))
     = [\<lparr>msg_class = HumanMessage, content = Str (u ''hi'')\<rparr>, \<lparr>msg_class = AIMessage, content = List [Str (u ''x'')]\<rparr>]"
proof -
  let ?E = "sample_env []"
  let ?hi = "Dict [(u ''type'', Str (u ''human'')), (u ''content'', Str (u ''hi''))]"
  let ?bad = "Dict [(u ''type'', Str (u ''ai''))]"
  let ?rest = "[Dict [(u ''type'', Str (u ''human'')), (u ''content'', Str (u ''bye''))]]"
  let ?items = "[(u ''messages'', List ([?hi] @ ?bad # ?rest)),
                 (u ''summary'', Str (u ''A short summary.''))]"
  let ?note = "Dict [(u ''type'', Str (u ''system'')), (u ''content'', Str (u ''note''))]"
  let ?listed = "Dict [(u ''id'', IntV 7), (u ''type'', Str (u ''ai'')),
                       (u ''content'', List [Str (u ''x'')])]"
  let ?mixed = "[(u ''messages'', List ([?hi, ?note, ?listed] @ IntV 3 # ?rest))]"
  have doc: "broken_document = Dict ?items"
    by (simp add: broken_document_def)
  have mixed: "mixed_document = Dict ?mixed"
    by (simp add: mixed_document_def)
  have entries: "map_of ?items (u ''messages'') = Some (List ([?hi] @ ?bad # ?rest))"
    and mixed_entries: "map_of ?mixed (u ''messages'')
        = Some (List ([?hi, ?note, ?listed] @ IntV 3 # ?rest))"
    by simp_all
  have good: "list_all (well_formed_entry ?E) [?hi]
      \<and> concat (map (entry_messages ?E) [?hi]) = [\<lparr>msg_class = HumanMessage, content = Str (u ''hi'')\<rparr>]"
    by (simp add: stored_content_def)
  have mixed_good: "list_all (well_formed_entry ?E) [?hi, ?note, ?listed]
      \<and> concat (map (entry_messages ?E) [?hi, ?note, ?listed])
          = [\<lparr>msg_class = HumanMessage, content = Str (u ''hi'')\<rparr>, \<lparr>msg_class = AIMessage, content = List [Str (u ''x'')]\<rparr>]"
    by (simp add: stored_content_def)
  have bad: "\<not> well_formed_entry ?E ?bad" and number: "\<not> well_formed_entry ?E (IntV 3)"
    by simp_all
  from C6_load_memory_fail_safe [of ?E "\<lparr>memory = [], memory_file = NoFile\<rparr>"]
  have r1: "snd (load_memory ?E \<lparr>memory = [], memory_file = NoFile\<rparr>)
      = \<lparr>memory = [], memory_file = NoFile\<rparr>"
    by simp
  from C6_load_memory_fail_safe [of ?E "\<lparr>memory = [], memory_file = Unparseable\<rparr>"]
  have r2: "snd (load_memory ?E \<lparr>memory = [], memory_file = Unparseable\<rparr>)
      = \<lparr>memory = [], memory_file = Unparseable\<rparr>"
    by simp
  from C6_load_memory_fail_safe [of ?E "\<lparr>memory = [], memory_file = Document (List [])\<rparr>" "List []"]
  have r3: "snd (load_memory ?E \<lparr>memory = [], memory_file = Document (List [])\<rparr>)
      = \<lparr>memory = [], memory_file = Document (List [])\<rparr>"
    by simp
  from C6_load_memory_fail_safe [of ?E "\<lparr>memory = [], memory_file = Document broken_document\<rparr>"
        "List []" ?items "IntV 0" "[?hi]" ?bad ?rest]
    doc entries good bad
  have r4: "memory (snd (load_memory ?E \<lparr>memory = [], memory_file = Document broken_document\<rparr>))
      = [\<lparr>msg_class = HumanMessage, content = Str (u ''hi'')\<rparr>]"
    by (simp del: map_of.simps list.map well_formed_entry.simps entry_messages.simps)
  from C6_load_memory_fail_safe [of ?E "\<lparr>memory = [], memory_file = Document mixed_document\<rparr>"
        "List []" ?mixed "IntV 0" "[?hi, ?note, ?listed]" "IntV 3" ?rest]
    mixed mixed_entries mixed_good number
  have r5: "memory (snd (load_memory ?E \<lparr>memory = [], memory_file = Document mixed_document\<rparr>))
      = [\<lparr>msg_class = HumanMessage, content = Str (u ''hi'')\<rparr>, \<lparr>msg_class = AIMessage, content = List [Str (u ''x'')]\<rparr>]"
    by (simp del: map_of.simps list.map well_formed_entry.simps entry_messages.simps)
  from r1 r2 r3 r4 r5 show ?thesis by blast
qed

section \<open>Which tools return a text for every input\<close>

text \<open>
  A \<open>try\<close> whose handler returns a text returns a text.
\<close>

lemma try_except_returns:
  assumes "\<And>e s. \<exists>x. fst (h e s) = Inr x"
  shows "\<exists>x. fst (try_except m h w) = Inr x"
proof (cases "m w")
  case (Pair r w')
  then show ?thesis using assms [of _ w']
    by (cases r) (auto simp: try_except_def)
qed

lemma web_search_returns: "\<exists>x. fst (web_search E args kwargs w) = Inr x"
proof -
  obtain query where "normalize_input (py_repr E) (tool_argument (u ''query'') args kwargs) = Inr query"
    using normalize_input_total by blast
  then show ?thesis
    by (simp add: web_search_def try_except_returns)
qed

lemma http_request_returns: "\<exists>x. fst (http_request E args kwargs w) = Inr x"
  by (simp add: http_request_def Let_def try_except_returns)

lemma write_file_impl_returns: "\<exists>x. fst (write_file_impl E v w) = Inr x"
proof -
  obtain arg where "write_file_argument (py_repr E) v = Inr arg"
    using write_file_argument_total by blast
  then show ?thesis
    by (simp add: write_file_impl_def try_except_returns)
qed

lemma write_file_wrapper_returns: "\<exists>x. fst (write_file_wrapper E args kwargs w) = Inr x"
  by (simp add: write_file_wrapper_def write_file_impl_returns)

lemma execute_terminal_returns: "\<exists>x. fst (execute_terminal E args kwargs w) = Inr x"
proof -
  obtain command where
    c: "normalize_input (py_repr E) (tool_argument (u ''command'') args kwargs) = Inr command"
    using normalize_input_total by blast
  have handler: "\<exists>x. fst ((if exn_class_of e = TimeoutExpired then ret msg_command_timeout
                else ret (msg_command_error (exn_text e))) s) = Inr x" for e and s :: world
    by simp
  show ?thesis
  proof (cases "find (\<lambda>d. startswith (strip (lower command)) d) dangerous_commands")
    case None
    then show ?thesis using c try_except_returns [of _ _ w, OF handler]
      by (simp add: execute_terminal_def Let_def)
  next
    case (Some d)
    then show ?thesis using c by (simp add: execute_terminal_def Let_def)
  qed
qed

lemma get_currency_rate_returns: "\<exists>x. fst (get_currency_rate E args kwargs w) = Inr x"
proof -
  obtain pair where
    p: "normalize_input (py_repr E) (tool_argument (u ''currency_pair'') args kwargs) = Inr pair"
    using normalize_input_total by blast
  have handler: "\<exists>x. fst ((if is_request_exception e then ret (msg_currency_request_error (exn_text e))
            else ret (msg_rate_error (exn_text e))) s) = Inr x" for e and s :: world
    by simp
  show ?thesis using p try_except_returns [of _ _ w, OF handler]
    by (simp add: get_currency_rate_def)
qed

text \<open>
  \<open>get_weather\<close> returns a text whenever the geocoder can be constructed: the variable
  \<open>location\<close> is then assigned before anything else in the \<open>try\<close> can raise.
\<close>

lemma weather_handler_bound: "\<exists>x. weather_handler city (Bound loc) e = Inr x"
  by (cases loc) (simp_all add: weather_handler_def Let_def)

lemma get_weather_returns:
  assumes "nominatim E = None"
  shows "\<exists>x. fst (get_weather E args kwargs w) = Inr x"
proof -
  obtain city where
    c: "normalize_input (py_repr E) (tool_argument (u ''city'') args kwargs) = Inr city"
    using normalize_input_total by blast
  obtain err loc w' where g: "geocode_loop E city 0 max_retries None w = ((err, loc), w')"
    by (metis prod.exhaust)
  show ?thesis
  proof (cases err)
    case (Some e)
    then show ?thesis using c g assms weather_handler_bound [of city loc e]
      by auto (simp add: get_weather_def)
  next
    case None
    show ?thesis
    proof (cases loc)
      case None
      then show ?thesis using c g assms \<open>err = None\<close> by (simp add: get_weather_def)
    next
      case (Some l)
      have "\<exists>x. fst (lift (weather_handler city (Bound (Some l)) e) s) = Inr x" for e and s :: world
        using weather_handler_bound [of city "Some l" e] by auto
      from try_except_returns [of "\<lambda>e. lift (weather_handler city (Bound (Some l)) e)"
             "weather_report E city l" w', OF this]
      show ?thesis using c g assms \<open>err = None\<close> Some by (simp add: get_weather_def)
    qed
  qed
qed

text \<open>
  When constructing the geocoder raises an exception whose text has none of the markers,
  the handler reads \<open>location\<close> before it was assigned, and UnboundLocalError leaves
  the tool.
\<close>

lemma get_weather_handler_raises:
  assumes "nominatim E = Some e"
    and "\<not> contains (lower (exn_text e)) (u ''timeout'')"
    and "\<not> contains (lower (exn_text e)) (u ''timed out'')"
    and "\<not> contains (exn_text e) (u ''GeocoderUnavailable'')"
    and "\<not> contains (lower (exn_text e)) (u ''unavailable'')"
    and "\<not> contains (lower (exn_text e)) (u ''not found'')"
  shows "\<exists>t. get_weather E [Str city] [] w = (Inl (Exn UnboundLocalError t), w)"
  using assms by (simp add: get_weather_def weather_handler_def Let_def)

lemma get_weather_raises_instance:
  "\<exists>t. get_weather no_geocoder_env [Str (u ''Paris'')] [] empty_world
         = (Inl (Exn UnboundLocalError t), empty_world)"
proof -
  have n: "nominatim no_geocoder_env = Some (Exn OtherError (u ''adapter configuration error''))"
    by (simp add: no_geocoder_env_def)
  have m: "\<not> contains (lower (u ''adapter configuration error'')) (u ''timeout'')"
    "\<not> contains (lower (u ''adapter configuration error'')) (u ''timed out'')"
    "\<not> contains (u ''adapter configuration error'') (u ''GeocoderUnavailable'')"
    "\<not> contains (lower (u ''adapter configuration error'')) (u ''unavailable'')"
    "\<not> contains (lower (u ''adapter configuration error'')) (u ''not found'')"
    by (simp_all add: lower_def lower_cp_def lower_special_def startswith_def)
  from get_weather_handler_raises [OF n, of "u ''Paris''" empty_world] m
  show ?thesis by simp
qed

text \<open>
  Claim C2 says that every tool returns a text for every raw input, the empty one
  included, and never raises. \<open>get_crypto_price\<close> does not: for the empty list the last
  branch of lines 572 to 580 evaluates \<open>coin_and_currency[0]\<close> before the \<open>try\<close> is
  entered, and IndexError leaves the tool, whatever the environment.
\<close>

theorem C2_get_crypto_price_raises:
  "get_crypto_price E [List []] [] w = (Inl (Exn IndexError (u ''list index out of range'')), w)"
  by (simp add: get_crypto_price_def crypto_argument_def item_def)

end
